theory Spec2Isabelle
  imports Complex_Main
begin

section \<open>JavaScript values used by the dashboard\<close>

text \<open>
  The controller class \<^verbatim>\<open>WarDashboard\<close> of \<^verbatim>\<open>src/js/main.js\<close> works on
  JSON data: strings, numbers and the value \<^verbatim>\<open>undefined\<close> that a missing
  property reads as. A Number is a finite value, \<^verbatim>\<open>NaN\<close> or one of the two
  infinities. Finite values are exact rationals here: the rounding and the
  overflow of binary64 and the sign of zero are not represented (no operation
  below tells \<^verbatim>\<open>-0\<close> from \<^verbatim>\<open>+0\<close>: the only divisor is a
  \<^verbatim>\<open>Math.max\<close> of values that went through \<^verbatim>\<open>|| 0\<close>). The value
  of a property is a JSON scalar or \<^verbatim>\<open>undefined\<close>; the boundary file and
  the sheet hold no nested objects or arrays as values.

  A string is its UTF-8 byte sequence, so the Burmese literals of the source are
  written as bytes.
\<close>

datatype jsnum = Fin rat | NaN | PInf | NInf

datatype jsval = JUndefined | JNull | JBool bool | JNum jsnum | JStr string

datatype js_error = TypeError | Rejected string

text \<open>\<^verbatim>\<open>obj.key\<close>: a missing property reads as \<^verbatim>\<open>undefined\<close>.\<close>

definition get :: "(string \<rightharpoonup> jsval) \<Rightarrow> string \<Rightarrow> jsval" where
  "get obj key = (case obj key of None \<Rightarrow> JUndefined | Some v \<Rightarrow> v)"

text \<open>ToBoolean.\<close>

fun truthy :: "jsval \<Rightarrow> bool" where
  "truthy JUndefined = False"
| "truthy JNull = False"
| "truthy (JBool b) = b"
| "truthy (JNum n) = (n \<noteq> NaN \<and> n \<noteq> Fin 0)"
| "truthy (JStr s) = (s \<noteq> [])"

text \<open>\<^verbatim>\<open>a === b\<close>: same type and same value, and \<^verbatim>\<open>NaN\<close> equals nothing.\<close>

definition strict_eq :: "jsval \<Rightarrow> jsval \<Rightarrow> bool" where
  "strict_eq a b = (a = b \<and> a \<noteq> JNum NaN)"

text \<open>\<^verbatim>\<open>a || b\<close>.\<close>

definition js_or :: "jsval \<Rightarrow> jsval \<Rightarrow> jsval" where
  "js_or a b = (if truthy a then a else b)"

subsection \<open>Number arithmetic\<close>

definition sgn_inf :: "rat \<Rightarrow> jsnum" where
  "sgn_inf s = (if 0 < s then PInf else NInf)"

fun js_neg :: "jsnum \<Rightarrow> jsnum" where
  "js_neg (Fin a) = Fin (- a)"
| "js_neg NaN = NaN"
| "js_neg PInf = NInf"
| "js_neg NInf = PInf"

fun js_add :: "jsnum \<Rightarrow> jsnum \<Rightarrow> jsnum" where
  "js_add (Fin a) (Fin b) = Fin (a + b)"
| "js_add NaN _ = NaN"
| "js_add _ NaN = NaN"
| "js_add PInf NInf = NaN"
| "js_add NInf PInf = NaN"
| "js_add PInf _ = PInf"
| "js_add NInf _ = NInf"
| "js_add (Fin a) PInf = PInf"
| "js_add (Fin a) NInf = NInf"

definition js_sub :: "jsnum \<Rightarrow> jsnum \<Rightarrow> jsnum" where
  "js_sub a b = js_add a (js_neg b)"

fun js_mul :: "jsnum \<Rightarrow> jsnum \<Rightarrow> jsnum" where
  "js_mul (Fin a) (Fin b) = Fin (a * b)"
| "js_mul NaN _ = NaN"
| "js_mul _ NaN = NaN"
| "js_mul PInf PInf = PInf"
| "js_mul PInf NInf = NInf"
| "js_mul NInf PInf = NInf"
| "js_mul NInf NInf = PInf"
| "js_mul PInf (Fin b) = (if b = 0 then NaN else sgn_inf b)"
| "js_mul NInf (Fin b) = (if b = 0 then NaN else sgn_inf (- b))"
| "js_mul (Fin a) PInf = (if a = 0 then NaN else sgn_inf a)"
| "js_mul (Fin a) NInf = (if a = 0 then NaN else sgn_inf (- a))"

text \<open>
  \<^verbatim>\<open>a / b\<close>. A zero divisor is \<^verbatim>\<open>+0\<close>: \<^verbatim>\<open>0 / 0\<close> is \<^verbatim>\<open>NaN\<close> and
  a non-zero dividend gives the infinity of its sign.
\<close>

fun js_div :: "jsnum \<Rightarrow> jsnum \<Rightarrow> jsnum" where
  "js_div (Fin a) (Fin b) =
     (if b = 0 then (if a = 0 then NaN else sgn_inf a) else Fin (a / b))"
| "js_div NaN _ = NaN"
| "js_div _ NaN = NaN"
| "js_div (Fin a) PInf = Fin 0"
| "js_div (Fin a) NInf = Fin 0"
| "js_div PInf (Fin b) = (if b < 0 then NInf else PInf)"
| "js_div NInf (Fin b) = (if b < 0 then PInf else NInf)"
| "js_div PInf PInf = NaN"
| "js_div PInf NInf = NaN"
| "js_div NInf PInf = NaN"
| "js_div NInf NInf = NaN"

text \<open>\<^verbatim>\<open>a <= b\<close> and \<^verbatim>\<open>a >= b\<close> on Numbers: false as soon as one side is \<^verbatim>\<open>NaN\<close>.\<close>

fun js_le :: "jsnum \<Rightarrow> jsnum \<Rightarrow> bool" where
  "js_le (Fin a) (Fin b) = (a \<le> b)"
| "js_le NaN _ = False"
| "js_le _ NaN = False"
| "js_le NInf _ = True"
| "js_le _ PInf = True"
| "js_le PInf _ = False"
| "js_le _ NInf = False"

definition js_ge :: "jsnum \<Rightarrow> jsnum \<Rightarrow> bool" where
  "js_ge a b = js_le b a"

text \<open>
  \<^verbatim>\<open>Math.max(...xs)\<close>: starts from \<^verbatim>\<open>-Infinity\<close>, is \<^verbatim>\<open>NaN\<close> as soon as one
  argument is.
\<close>

definition max2 :: "jsnum \<Rightarrow> jsnum \<Rightarrow> jsnum" where
  "max2 highest x =
     (if highest = NaN \<or> x = NaN then NaN else if js_le x highest then highest else x)"

definition Math_max :: "jsnum list \<Rightarrow> jsnum" where
  "Math_max xs = fold (\<lambda>x highest. max2 highest x) xs NInf"

subsection \<open>parseInt\<close>

text \<open>
  \<^verbatim>\<open>parseInt(string)\<close> with no radix (ECMAScript, section parseInt): leading
  white space is dropped, then an optional sign, then \<^verbatim>\<open>0x\<close> or \<^verbatim>\<open>0X\<close>
  selects radix 16 (radix 10 otherwise), then the longest run of digits of that
  radix is read; no digit at all gives \<^verbatim>\<open>NaN\<close>. White space is the class
  StrWhiteSpaceChar, here in UTF-8: the six ASCII characters, U+00A0, U+1680,
  U+2000 to U+200A, U+2028, U+2029, U+202F, U+205F, U+3000 and U+FEFF.
\<close>

definition ws1 :: "string list" where
  "ws1 = [[CHR 0x09], [CHR 0x0A], [CHR 0x0B], [CHR 0x0C], [CHR 0x0D], [CHR 0x20]]"

definition ws2 :: "string list" where
  "ws2 = [[CHR 0xC2, CHR 0xA0]]"

definition ws3 :: "string list" where
  "ws3 = [[CHR 0xE1, CHR 0x9A, CHR 0x80],
          [CHR 0xE2, CHR 0x80, CHR 0x80], [CHR 0xE2, CHR 0x80, CHR 0x81],
          [CHR 0xE2, CHR 0x80, CHR 0x82], [CHR 0xE2, CHR 0x80, CHR 0x83],
          [CHR 0xE2, CHR 0x80, CHR 0x84], [CHR 0xE2, CHR 0x80, CHR 0x85],
          [CHR 0xE2, CHR 0x80, CHR 0x86], [CHR 0xE2, CHR 0x80, CHR 0x87],
          [CHR 0xE2, CHR 0x80, CHR 0x88], [CHR 0xE2, CHR 0x80, CHR 0x89],
          [CHR 0xE2, CHR 0x80, CHR 0x8A],
          [CHR 0xE2, CHR 0x80, CHR 0xA8], [CHR 0xE2, CHR 0x80, CHR 0xA9],
          [CHR 0xE2, CHR 0x80, CHR 0xAF], [CHR 0xE2, CHR 0x81, CHR 0x9F],
          [CHR 0xE3, CHR 0x80, CHR 0x80], [CHR 0xEF, CHR 0xBB, CHR 0xBF]]"

text \<open>The number of bytes of the white space character a string starts with, 0 if none.\<close>

definition ws_len :: "string \<Rightarrow> nat" where
  "ws_len s =
     (if take 1 s \<in> set ws1 then 1
      else if take 2 s \<in> set ws2 then 2
      else if take 3 s \<in> set ws3 then 3
      else 0)"

function skip_ws :: "string \<Rightarrow> string" where
  "skip_ws s = (if ws_len s = 0 then s else skip_ws (drop (ws_len s) s))"
  by pat_completeness auto
termination
proof (relation "measure length")
  show "wf (measure length)" by simp
next
  fix s :: string
  assume "ws_len s \<noteq> 0"
  then have "s \<noteq> []" and "0 < ws_len s"
    by (auto simp: ws_len_def ws1_def ws2_def ws3_def)
  then show "(drop (ws_len s) s, s) \<in> measure length"
    by (cases s) auto
qed

text \<open>The value of a character as a digit of radix \<open>R\<close>, if it is one.\<close>

definition digit_val :: "nat \<Rightarrow> char \<Rightarrow> nat option" where
  "digit_val R c =
     (let n = (of_char c :: nat);
          d = (if 48 \<le> n \<and> n \<le> 57 then Some (n - 48)
               else if 97 \<le> n \<and> n \<le> 122 then Some (n - 87)
               else if 65 \<le> n \<and> n \<le> 90 then Some (n - 55)
               else None)
      in case d of None \<Rightarrow> None | Some v \<Rightarrow> if v < R then Some v else None)"

fun leading_digits :: "nat \<Rightarrow> string \<Rightarrow> nat list" where
  "leading_digits R [] = []"
| "leading_digits R (c # s) =
     (case digit_val R c of None \<Rightarrow> [] | Some d \<Rightarrow> d # leading_digits R s)"

definition digits_value :: "nat \<Rightarrow> nat list \<Rightarrow> nat" where
  "digits_value R ds = foldl (\<lambda>acc d. acc * R + d) 0 ds"

definition StringToInt :: "string \<Rightarrow> jsnum" where
  "StringToInt inputString =
     (let S = skip_ws inputString;
          sign = (if take 1 S = ''-'' then - 1 else 1 :: int);
          S1 = (if take 1 S = ''+'' \<or> take 1 S = ''-'' then drop 1 S else S);
          hex = (take 2 S1 = ''0x'' \<or> take 2 S1 = ''0X'');
          R = (if hex then 16 else 10);
          S2 = (if hex then drop 2 S1 else S1);
          Z = leading_digits R S2
      in if Z = [] then NaN else Fin (of_int (sign * int (digits_value R Z))))"

text \<open>
  \<^verbatim>\<open>parseInt\<close> of a Number reads the digits its decimal string starts with:
  the integer part when the string has no exponent (magnitude from \<open>10\<^sup>-\<^sup>6\<close>
  up to \<open>10\<^sup>2\<^sup>1\<close>), the leading digit otherwise; \<^verbatim>\<open>NaN\<close>,
  \<^verbatim>\<open>Infinity\<close> and \<^verbatim>\<open>-Infinity\<close> have no digit.
\<close>

function msd :: "int \<Rightarrow> int" where
  "msd n = (if n < 10 then n else msd (n div 10))"
  by pat_completeness auto
termination
  by (relation "measure nat") auto

text \<open>The least power of ten, from \<open>p\<close> on, that reaches \<open>d\<close>.\<close>

function pow10_from :: "int \<Rightarrow> int \<Rightarrow> int" where
  "pow10_from p d = (if d \<le> p \<or> p \<le> 0 then p else pow10_from (10 * p) d)"
  by pat_completeness auto
termination
  by (relation "measure (\<lambda>(p, d). nat (d - p))") auto

text \<open>The first significant decimal digit of a positive rational.\<close>

definition lead_digit :: "rat \<Rightarrow> int" where
  "lead_digit a =
     (if 1 \<le> a then msd \<lfloor>a\<rfloor>
      else msd \<lfloor>a * of_int (pow10_from 1 (snd (quotient_of a)))\<rfloor>)"

definition NumberToInt :: "jsnum \<Rightarrow> jsnum" where
  "NumberToInt n =
     (case n of
        Fin q \<Rightarrow>
          (if q = 0 then Fin 0
           else if 1 / 10 ^ 6 \<le> \<bar>q\<bar> \<and> \<bar>q\<bar> < 10 ^ 21
             then Fin (sgn q * of_int \<lfloor>\<bar>q\<bar>\<rfloor>)
           else Fin (sgn q * of_int (lead_digit \<bar>q\<bar>)))
      | _ \<Rightarrow> NaN)"

text \<open>\<^verbatim>\<open>parseInt(v)\<close>: the argument is converted to a string first.\<close>

fun parseInt :: "jsval \<Rightarrow> jsnum" where
  "parseInt (JStr s) = StringToInt s"
| "parseInt (JNum n) = NumberToInt n"
| "parseInt JUndefined = StringToInt ''undefined''"
| "parseInt JNull = StringToInt ''null''"
| "parseInt (JBool b) = StringToInt (if b then ''true'' else ''false'')"

subsection \<open>Dates\<close>

text \<open>
  A \<^verbatim>\<open>Date\<close> object is its time value: milliseconds since the epoch, or
  \<^verbatim>\<open>NaN\<close> for an invalid date. \<^verbatim>\<open>new Date(v)\<close> parses a string with
  \<^verbatim>\<open>Date.parse\<close>, whose result on anything but the ISO format is left to the
  browser: it is the parameter \<open>Date_parse\<close>. Any other value is converted to
  a Number. Comparing two dates with \<^verbatim>\<open>>=\<close> or \<^verbatim>\<open><=\<close> compares the time
  values.
\<close>

definition TimeClip :: "jsnum \<Rightarrow> jsnum" where
  "TimeClip t =
     (case t of
        Fin q \<Rightarrow> if 8640000000000000 < \<bar>q\<bar> then NaN else Fin (sgn q * of_int \<lfloor>\<bar>q\<bar>\<rfloor>)
      | _ \<Rightarrow> NaN)"

fun new_Date :: "(string \<Rightarrow> jsnum) \<Rightarrow> jsval \<Rightarrow> jsnum" where
  "new_Date Date_parse (JStr s) = TimeClip (Date_parse s)"
| "new_Date Date_parse JUndefined = NaN"
| "new_Date Date_parse JNull = TimeClip (Fin 0)"
| "new_Date Date_parse (JBool b) = TimeClip (Fin (if b then 1 else 0))"
| "new_Date Date_parse (JNum n) = TimeClip n"

section \<open>The data model\<close>

text \<open>
  \<^verbatim>\<open>processSheetData\<close> turns the rows of the spreadsheet into one object per
  row, keyed by the header row. The cells are strings; a row shorter than the
  header row leaves \<^verbatim>\<open>undefined\<close> under the remaining headers. Assigning a
  string or \<^verbatim>\<open>undefined\<close> to \<^verbatim>\<open>item['__proto__']\<close> does nothing: a
  header of that name adds no property.
\<close>

datatype cell = Text string | Blank

type_synonym row = "string \<rightharpoonup> cell"

fun cell_val :: "cell \<Rightarrow> jsval" where
  "cell_val (Text s) = JStr s"
| "cell_val Blank = JUndefined"

text \<open>\<^verbatim>\<open>d.key\<close> on a row.\<close>

definition row_get :: "row \<Rightarrow> string \<Rightarrow> jsval" where
  "row_get d key = (case d key of None \<Rightarrow> JUndefined | Some c \<Rightarrow> cell_val c)"

text \<open>The own properties of a row, as \<^verbatim>\<open>...sheetEntry\<close> copies them.\<close>

definition row_props :: "row \<Rightarrow> (string \<rightharpoonup> jsval)" where
  "row_props d = (\<lambda>key. map_option cell_val (d key))"

definition processSheetData :: "string list list \<Rightarrow> row list" where
  "processSheetData rows =
     (case rows of
        [] \<Rightarrow> []
      | headers # body \<Rightarrow>
          map (\<lambda>row. fold (\<lambda>(header, index) item.
                              if header = ''__proto__'' then item
                              else item(header \<mapsto>
                                     (if index < length row then Text (row ! index) else Blank)))
                          (zip headers [0..<length headers]) Map.empty)
              body)"

text \<open>
  A boundary feature is a GeoJSON feature: its \<^verbatim>\<open>properties\<close> object and its
  other members (type, geometry), which the code only copies. The boundary data
  is a feature collection: an object with the list \<^verbatim>\<open>features\<close>.
\<close>

record 'a feature =
  members :: 'a
  properties :: "string \<rightharpoonup> jsval"

record 'a geojson =
  features :: "'a feature list"

text \<open>
  A merged feature is \<^verbatim>\<open>{...feature, properties: {...feature.properties,
  ...sheetEntry, totalTime: n}}\<close>. Its property \<^verbatim>\<open>totalTime\<close> is always a
  Number and is a field of its own here; \<open>props\<close> holds every other property.
\<close>

record 'a merged =
  base :: 'a
  props :: "string \<rightharpoonup> jsval"
  totalTime :: jsnum

section \<open>String literals of the source\<close>

text \<open>The sentinel of the three select filters: the option that stands for every value (U+1021 U+102C U+1038 U+101C U+102F U+1036 U+1038).\<close>

definition all_option :: string where
  "all_option =
     [CHR 0xE1, CHR 0x80, CHR 0xA1, CHR 0xE1, CHR 0x80, CHR 0xAC,
      CHR 0xE1, CHR 0x80, CHR 0xB8, CHR 0xE1, CHR 0x80, CHR 0x9C,
      CHR 0xE1, CHR 0x80, CHR 0xAF, CHR 0xE1, CHR 0x80, CHR 0xB6,
      CHR 0xE1, CHR 0x80, CHR 0xB8]"

text \<open>The column summed into \<^verbatim>\<open>sacrificeSac\<close>.\<close>

definition key_sacrificeSac :: string where
  "key_sacrificeSac =
     [CHR 0xE1, CHR 0x80, CHR 0x85, CHR 0xE1, CHR 0x80, CHR 0x80,
      CHR 0xE1, CHR 0x80, CHR 0x85, CHR 0xE1, CHR 0x80, CHR 0x80,
      CHR 0xE1, CHR 0x80, CHR 0xBB, CHR 0xE1, CHR 0x80, CHR 0x86,
      CHR 0xE1, CHR 0x80, CHR 0xAF, CHR 0xE1, CHR 0x80, CHR 0xB6,
      CHR 0xE1, CHR 0x80, CHR 0xB8]"

text \<open>The column summed into \<^verbatim>\<open>revolutionMartyrs\<close>.\<close>

definition key_revolutionMartyrs :: string where
  "key_revolutionMartyrs =
     [CHR 0xE1, CHR 0x80, CHR 0x90, CHR 0xE1, CHR 0x80, CHR 0xB1,
      CHR 0xE1, CHR 0x80, CHR 0xAC, CHR 0xE1, CHR 0x80, CHR 0xBA,
      CHR 0xE1, CHR 0x80, CHR 0x9C, CHR 0xE1, CHR 0x80, CHR 0xBE,
      CHR 0xE1, CHR 0x80, CHR 0x94, CHR 0xE1, CHR 0x80, CHR 0xBA,
      CHR 0xE1, CHR 0x80, CHR 0x9B, CHR 0xE1, CHR 0x80, CHR 0xB1,
      CHR 0xE1, CHR 0x80, CHR 0xB8, CHR 0xE1, CHR 0x80, CHR 0x80,
      CHR 0xE1, CHR 0x80, CHR 0xBB, CHR 0xE1, CHR 0x80, CHR 0x86,
      CHR 0xE1, CHR 0x80, CHR 0xAF, CHR 0xE1, CHR 0x80, CHR 0xB6,
      CHR 0xE1, CHR 0x80, CHR 0xB8]"

text \<open>The first column summed into \<^verbatim>\<open>capturedBases\<close>.\<close>

definition key_basesRevolution :: string where
  "key_basesRevolution =
     [CHR 0xE1, CHR 0x80, CHR 0x85, CHR 0xE1, CHR 0x80, CHR 0x81,
      CHR 0xE1, CHR 0x80, CHR 0x94, CHR 0xE1, CHR 0x80, CHR 0xBA,
      CHR 0xE1, CHR 0x80, CHR 0xB8, CHR 0xE1, CHR 0x80, CHR 0x9E,
      CHR 0xE1, CHR 0x80, CHR 0xAD, CHR 0xE1, CHR 0x80, CHR 0x99,
      CHR 0xE1, CHR 0x80, CHR 0xBA, CHR 0xE1, CHR 0x80, CHR 0xB8,
      CHR 0x28, CHR 0xE1, CHR 0x80, CHR 0x90, CHR 0xE1, CHR 0x80,
      CHR 0xB1, CHR 0xE1, CHR 0x80, CHR 0xAC, CHR 0xE1, CHR 0x80,
      CHR 0xBA, CHR 0xE1, CHR 0x80, CHR 0x9C, CHR 0xE1, CHR 0x80,
      CHR 0xBE, CHR 0xE1, CHR 0x80, CHR 0x94, CHR 0xE1, CHR 0x80,
      CHR 0xBA, CHR 0xE1, CHR 0x80, CHR 0x9B, CHR 0xE1, CHR 0x80,
      CHR 0xB1, CHR 0xE1, CHR 0x80, CHR 0xB8, CHR 0x29]"

text \<open>The second column summed into \<^verbatim>\<open>capturedBases\<close>.\<close>

definition key_basesSac :: string where
  "key_basesSac =
     [CHR 0xE1, CHR 0x80, CHR 0x85, CHR 0xE1, CHR 0x80, CHR 0x81,
      CHR 0xE1, CHR 0x80, CHR 0x94, CHR 0xE1, CHR 0x80, CHR 0xBA,
      CHR 0xE1, CHR 0x80, CHR 0xB8, CHR 0xE1, CHR 0x80, CHR 0x9E,
      CHR 0xE1, CHR 0x80, CHR 0xAD, CHR 0xE1, CHR 0x80, CHR 0x99,
      CHR 0xE1, CHR 0x80, CHR 0xBA, CHR 0xE1, CHR 0x80, CHR 0xB8,
      CHR 0x28, CHR 0xE1, CHR 0x80, CHR 0x85, CHR 0xE1, CHR 0x80,
      CHR 0x80, CHR 0xE1, CHR 0x80, CHR 0x85, CHR 0x29]"

text \<open>The column summed into \<^verbatim>\<open>prisonersWar\<close>.\<close>

definition key_prisonersWar :: string where
  "key_prisonersWar =
     [CHR 0xE1, CHR 0x80, CHR 0x85, CHR 0xE1, CHR 0x80, CHR 0x85,
      CHR 0xE1, CHR 0x80, CHR 0xBA, CHR 0xE1, CHR 0x80, CHR 0x9E,
      CHR 0xE1, CHR 0x80, CHR 0xAF, CHR 0xE1, CHR 0x80, CHR 0xB6,
      CHR 0xE1, CHR 0x80, CHR 0x95, CHR 0xE1, CHR 0x80, CHR 0x94,
      CHR 0xE1, CHR 0x80, CHR 0xBA, CHR 0xE1, CHR 0x80, CHR 0xB8]"

text \<open>The heading of a popup with no headline.\<close>

definition no_information :: string where
  "no_information =
     [CHR 0xE1, CHR 0x80, CHR 0xA1, CHR 0xE1, CHR 0x80, CHR 0x81,
      CHR 0xE1, CHR 0x80, CHR 0xBB, CHR 0xE1, CHR 0x80, CHR 0x80,
      CHR 0xE1, CHR 0x80, CHR 0xBA, CHR 0xE1, CHR 0x80, CHR 0xA1,
      CHR 0xE1, CHR 0x80, CHR 0x9C, CHR 0xE1, CHR 0x80, CHR 0x80,
      CHR 0xE1, CHR 0x80, CHR 0xBA, CHR 0xE1, CHR 0x80, CHR 0x99,
      CHR 0xE1, CHR 0x80, CHR 0x9B, CHR 0xE1, CHR 0x80, CHR 0xBE,
      CHR 0xE1, CHR 0x80, CHR 0xAD, CHR 0xE1, CHR 0x80, CHR 0x95,
      CHR 0xE1, CHR 0x80, CHR 0xAB]"

section \<open>The controller and the host page\<close>

text \<open>
  \<^verbatim>\<open>this.filters\<close>. A date bound is \<^verbatim>\<open>null\<close> at first and
  \<^verbatim>\<open>undefined\<close> when the picker delivers fewer than two dates (both
  \<open>None\<close>), or a \<^verbatim>\<open>Date\<close> (its time value). The three select filters hold
  the \<^verbatim>\<open>value\<close> of the chosen option, a string.
\<close>

record filters =
  startDate :: "jsnum option"
  endDate :: "jsnum option"
  state :: string
  township :: string
  group :: string

text \<open>
  The object \<^verbatim>\<open>getStyle\<close> returns; \<^verbatim>\<open>fillColor\<close> is
  \<^verbatim>\<open>hsl(0, 100%, L%)\<close> with \<open>L\<close> the field \<open>lightness\<close>.
\<close>

record style =
  lightness :: jsnum
  weight :: rat
  opacity :: rat
  color :: string
  fillOpacity :: rat

text \<open>What a popup shows: heading, state and township, the count, and the link if any.\<close>

record popup =
  heading :: jsval
  place :: "jsval \<times> jsval"
  occurrences :: jsnum
  link :: "jsval option"

text \<open>
  \<^verbatim>\<open>L.geoJson(data, {style, onEachFeature})\<close> builds one polygon per feature,
  styled by \<^verbatim>\<open>style(feature)\<close> and handed to \<^verbatim>\<open>onEachFeature\<close>; the
  result is the layer. Every boundary feature is taken to have a polygon
  geometry, as the boundary file has. A layer is an object: the library stamps
  it with an id of its own, by which \<^verbatim>\<open>removeLayer\<close> finds it.
\<close>

record 'a polygon =
  target :: "'a merged"
  polygon_style :: style
  polygon_popup :: popup

record 'a layer =
  leaflet_id :: nat
  polygons :: "'a polygon list"

record totals =
  sacrificeSac :: jsnum
  revolutionMartyrs :: jsnum
  capturedBases :: jsnum
  prisonersWar :: jsnum

text \<open>
  The host page, as far as the controller writes it: the option values of each
  select element (by element id), the elements with a change listener, whether
  the date picker is bound, the four counters (\<open>None\<close> until written) and the
  entries of the headline list (type label and headline; \<open>None\<close> until
  written). The elements the controller looks up by id are taken to exist.
\<close>

record page =
  select_options :: "string \<Rightarrow> string list"
  change_listeners :: "string set"
  date_picker :: bool
  cards :: "totals option"
  headlines :: "(jsval \<times> jsval) list option"

text \<open>
  The fields of \<^verbatim>\<open>WarDashboard\<close>. \<open>map_obj\<close> is \<^verbatim>\<open>this.map\<close>:
  \<open>None\<close> for \<^verbatim>\<open>null\<close>, otherwise the polygon layers on the map.
  \<^verbatim>\<open>this.mergedData\<close> is not set by the constructor: \<open>None\<close> is
  \<^verbatim>\<open>undefined\<close>. \<open>console\<close> collects what \<^verbatim>\<open>console.error\<close> was given,
  and \<open>lastId\<close> is the library's counter of the ids it has handed out.
\<close>

record 'a dashboard =
  map_obj :: "'a layer list option"
  geoData :: "'a geojson option"
  sheetData :: "row list"
  currentLayer :: "'a layer option"
  filters :: filters
  mergedData :: "'a merged list option"
  document :: page
  console :: "js_error list"
  lastId :: nat

text \<open>The state the constructor leaves before it calls \<^verbatim>\<open>init\<close>, on a given page.\<close>

definition constructor :: "page \<Rightarrow> 'a dashboard" where
  "constructor pg =
     \<lparr> map_obj = None, geoData = None, sheetData = [], currentLayer = None,
       filters = \<lparr> startDate = None, endDate = None, state = all_option,
                   township = all_option, group = all_option \<rparr>,
       mergedData = None, document = pg, console = [], lastId = 0 \<rparr>"

text \<open>
  A method that can throw returns \<open>Inl (e, s)\<close>, the exception and the state
  it leaves behind, or \<open>Inr s\<close>.
\<close>

type_synonym 'a outcome = "(js_error \<times> 'a dashboard) + 'a dashboard"

definition state_of :: "'a outcome \<Rightarrow> 'a dashboard" where
  "state_of r = (case r of Inl (e, s) \<Rightarrow> s | Inr s \<Rightarrow> s)"

section \<open>mergeData\<close>

text \<open>\<^verbatim>\<open>n || 0\<close> on a Number.\<close>

definition or_zero :: "jsnum \<Rightarrow> jsnum" where
  "or_zero n = (if truthy (JNum n) then n else Fin 0)"

definition merge_feature :: "row list \<Rightarrow> 'a feature \<Rightarrow> 'a merged" where
  "merge_feature sheet feature =
     (let township = get (properties feature) ''TS_MMR'';
          sheetEntry = find (\<lambda>d. strict_eq (row_get d ''TS_MMR_DASH'') township) sheet
      in \<lparr> base = members feature,
           props = (properties feature ++
                      (case sheetEntry of None \<Rightarrow> Map.empty | Some d \<Rightarrow> row_props d))
                     |` (- {''totalTime''}),
           totalTime = (case sheetEntry of
                          None \<Rightarrow> Fin 0
                        | Some d \<Rightarrow> or_zero (parseInt (row_get d ''Time''))) \<rparr>)"

definition mergeData :: "'a dashboard \<Rightarrow> js_error + 'a merged list" where
  "mergeData s =
     (case geoData s of
        None \<Rightarrow> Inl TypeError
      | Some geo \<Rightarrow> Inr (map (merge_feature (sheetData s)) (features geo)))"

section \<open>applyFilters\<close>

definition filter_callback :: "(string \<Rightarrow> jsnum) \<Rightarrow> filters \<Rightarrow> 'a merged \<Rightarrow> bool" where
  "filter_callback Date_parse flt feature =
     (let date = new_Date Date_parse (get (props feature) ''Date'');
          dateMatch =
            ((case startDate flt of None \<Rightarrow> True | Some d \<Rightarrow> js_ge date d) \<and>
             (case endDate flt of None \<Rightarrow> True | Some d \<Rightarrow> js_le date d));
          stateMatch =
            (state flt = all_option \<or>
             strict_eq (get (props feature) ''ST_MMR'') (JStr (state flt)));
          townshipMatch =
            (township flt = all_option \<or>
             strict_eq (get (props feature) ''TS_MMR_DASH'') (JStr (township flt)));
          groupMatch =
            (group flt = all_option \<or>
             strict_eq (get (props feature) ''Groups'') (JStr (group flt)))
      in dateMatch \<and> stateMatch \<and> townshipMatch \<and> groupMatch)"

definition applyFilters :: "(string \<Rightarrow> jsnum) \<Rightarrow> 'a dashboard \<Rightarrow> js_error + 'a merged list" where
  "applyFilters Date_parse s =
     (case mergedData s of
        None \<Rightarrow> Inl TypeError
      | Some md \<Rightarrow> Inr (filter (filter_callback Date_parse (filters s)) md))"

section \<open>Rendering\<close>

definition getStyle :: "'a merged \<Rightarrow> jsnum \<Rightarrow> style" where
  "getStyle feature maxTime =
     (let val = totalTime feature;
          intensity = js_div val maxTime
      in \<lparr> lightness = js_sub (Fin 100) (js_mul intensity (Fin 50)),
           weight = 1, opacity = 1, color = ''white'', fillOpacity = 7 / 10 \<rparr>)"

definition addPopup :: "'a merged \<Rightarrow> popup" where
  "addPopup feature =
     \<lparr> heading = js_or (get (props feature) ''Headline'') (JStr no_information),
       place = (get (props feature) ''ST_MMR'', get (props feature) ''TS_MMR_DASH''),
       occurrences = totalTime feature,
       link = (if truthy (get (props feature) ''Link'')
               then Some (get (props feature) ''Link'') else None) \<rparr>"

definition geoJson :: "nat \<Rightarrow> 'a merged list \<Rightarrow> jsnum \<Rightarrow> 'a layer" where
  "geoJson n data maxTime =
     \<lparr> leaflet_id = n,
       polygons =
         map (\<lambda>feature. \<lparr> target = feature, polygon_style = getStyle feature maxTime,
                          polygon_popup = addPopup feature \<rparr>) data \<rparr>"

text \<open>\<^verbatim>\<open>parseInt(feature.properties[key] || 0)\<close>.\<close>

definition count_field :: "'a merged \<Rightarrow> string \<Rightarrow> jsnum" where
  "count_field feature key = parseInt (js_or (get (props feature) key) (JNum (Fin 0)))"

definition reducer :: "totals \<Rightarrow> 'a merged \<Rightarrow> totals" where
  "reducer acc feature =
     \<lparr> sacrificeSac = js_add (sacrificeSac acc) (count_field feature key_sacrificeSac),
       revolutionMartyrs =
         js_add (revolutionMartyrs acc) (count_field feature key_revolutionMartyrs),
       capturedBases =
         js_add (js_add (capturedBases acc) (count_field feature key_basesRevolution))
                (count_field feature key_basesSac),
       prisonersWar = js_add (prisonersWar acc) (count_field feature key_prisonersWar) \<rparr>"

definition sum_totals :: "'a merged list \<Rightarrow> totals" where
  "sum_totals data =
     foldl reducer
       \<lparr> sacrificeSac = Fin 0, revolutionMartyrs = Fin 0, capturedBases = Fin 0,
         prisonersWar = Fin 0 \<rparr>
       data"

definition updateSummaryCards :: "'a merged list \<Rightarrow> 'a dashboard \<Rightarrow> 'a dashboard" where
  "updateSummaryCards data s =
     s\<lparr> document := (document s)\<lparr> cards := Some (sum_totals data) \<rparr> \<rparr>"

definition updateHeadlines :: "'a merged list \<Rightarrow> 'a dashboard \<Rightarrow> 'a dashboard" where
  "updateHeadlines data s =
     s\<lparr> document := (document s)\<lparr> headlines :=
          Some (map (\<lambda>feature. (js_or (get (props feature) ''Type1'') (JStr []),
                                 js_or (get (props feature) ''Headline'') (JStr []))) data) \<rparr> \<rparr>"

text \<open>
  \<^verbatim>\<open>updateChoropleth\<close>. Calling a method of \<^verbatim>\<open>this.map\<close> while it is
  \<^verbatim>\<open>null\<close>, or \<^verbatim>\<open>filter\<close> on an undefined \<^verbatim>\<open>this.mergedData\<close>,
  throws a TypeError.
\<close>

definition removeCurrentLayer :: "'a dashboard \<Rightarrow> 'a outcome" where
  "removeCurrentLayer s =
     (case currentLayer s of
        None \<Rightarrow> Inr s
      | Some l \<Rightarrow>
          (case map_obj s of
             None \<Rightarrow> Inl (TypeError, s)
           | Some ls \<Rightarrow>
               Inr (s\<lparr> map_obj := Some (filter (\<lambda>x. leaflet_id x \<noteq> leaflet_id l) ls) \<rparr>)))"

definition updateChoropleth :: "(string \<Rightarrow> jsnum) \<Rightarrow> 'a dashboard \<Rightarrow> 'a outcome" where
  "updateChoropleth Date_parse s =
     (case removeCurrentLayer s of
        Inl e \<Rightarrow> Inl e
      | Inr s1 \<Rightarrow>
          (case applyFilters Date_parse s1 of
             Inl e \<Rightarrow> Inl (e, s1)
           | Inr filteredData \<Rightarrow>
               (let maxTime = Math_max (map totalTime filteredData);
                    l = geoJson (Suc (lastId s1)) filteredData maxTime;
                    s2 = s1\<lparr> lastId := Suc (lastId s1) \<rparr>
                in case map_obj s2 of
                     None \<Rightarrow> Inl (TypeError, s2)
                   | Some ls \<Rightarrow>
                       Inr (updateHeadlines filteredData
                             (updateSummaryCards filteredData
                               (s2\<lparr> map_obj := Some (ls @ [l]), currentLayer := Some l \<rparr>))))))"

definition updateDashboard :: "(string \<Rightarrow> jsnum) \<Rightarrow> 'a dashboard \<Rightarrow> 'a outcome" where
  "updateDashboard Date_parse s = updateChoropleth Date_parse s"

section \<open>The select filters\<close>

text \<open>\<^verbatim>\<open>d[property]\<close> as a cell: a missing column reads as \<^verbatim>\<open>undefined\<close>.\<close>

definition row_cell :: "row \<Rightarrow> string \<Rightarrow> cell" where
  "row_cell d key = (case d key of None \<Rightarrow> Blank | Some c \<Rightarrow> c)"

text \<open>\<^verbatim>\<open>Boolean(v)\<close> on a cell, and the string an option element stores for it.\<close>

definition cell_truthy :: "cell \<Rightarrow> bool" where
  "cell_truthy c = truthy (cell_val c)"

fun cell_text :: "cell \<Rightarrow> string" where
  "cell_text (Text t) = t"
| "cell_text Blank = ''undefined''"

text \<open>
  \<^verbatim>\<open>[...new Set(xs)]\<close>: a Set keeps its elements in the order they were first
  added.
\<close>

definition Set_values :: "'b list \<Rightarrow> 'b list" where
  "Set_values xs = fold (\<lambda>x acc. if x \<in> set acc then acc else acc @ [x]) xs []"

definition appendOptions :: "string \<Rightarrow> string list \<Rightarrow> page \<Rightarrow> page" where
  "appendOptions elementId vs pg =
     pg\<lparr> select_options := (select_options pg)(elementId := select_options pg elementId @ vs) \<rparr>"

definition clearOptions :: "string \<Rightarrow> page \<Rightarrow> page" where
  "clearOptions elementId pg = pg\<lparr> select_options := (select_options pg)(elementId := []) \<rparr>"

definition addEventListener :: "string \<Rightarrow> page \<Rightarrow> page" where
  "addEventListener elementId pg =
     pg\<lparr> change_listeners := insert elementId (change_listeners pg) \<rparr>"

definition updateTownshipFilter :: "'a dashboard \<Rightarrow> 'a dashboard" where
  "updateTownshipFilter s =
     (let townships =
            filter cell_truthy
              (map (\<lambda>d. row_cell d ''TS_MMR_DASH'')
                 (filter (\<lambda>d. state (filters s) = all_option \<or>
                               strict_eq (row_get d ''ST_MMR'') (JStr (state (filters s))))
                         (sheetData s)));
          pg = appendOptions ''township-filter'' (map cell_text (Set_values townships))
                 (appendOptions ''township-filter'' [all_option]
                   (clearOptions ''township-filter'' (document s)))
      in s\<lparr> document := pg, filters := (filters s)\<lparr> township := all_option \<rparr> \<rparr>)"

definition updateGroupFilter :: "'a dashboard \<Rightarrow> 'a dashboard" where
  "updateGroupFilter s =
     (let filteredData =
            filter (\<lambda>d. (state (filters s) = all_option \<or>
                          strict_eq (row_get d ''ST_MMR'') (JStr (state (filters s)))) \<and>
                         (township (filters s) = all_option \<or>
                          strict_eq (row_get d ''TS_MMR_DASH'') (JStr (township (filters s)))))
                   (sheetData s);
          groups = filter cell_truthy (map (\<lambda>d. row_cell d ''Groups'') filteredData);
          pg = appendOptions ''group-filter'' (map cell_text (Set_values groups))
                 (appendOptions ''group-filter'' [all_option]
                   (clearOptions ''group-filter'' (document s)))
      in s\<lparr> document := pg, filters := (filters s)\<lparr> group := all_option \<rparr> \<rparr>)"

definition initSelectFilter :: "string \<Rightarrow> string \<Rightarrow> 'a dashboard \<Rightarrow> 'a dashboard" where
  "initSelectFilter elementId property s =
     (let vals = filter cell_truthy
                   (Set_values (map (\<lambda>d. row_cell d property) (sheetData s)));
          pg = appendOptions elementId (map cell_text vals)
                 (appendOptions elementId [all_option] (document s));
          pg' = (if elementId = ''state-filter'' \<or> elementId = ''township-filter''
                 then addEventListener elementId pg else pg)
      in s\<lparr> document := pg' \<rparr>)"

definition initGroupFilter :: "'a dashboard \<Rightarrow> 'a dashboard" where
  "initGroupFilter s =
     updateGroupFilter (s\<lparr> document := addEventListener ''group-filter'' (document s) \<rparr>)"

definition initFilters :: "'a dashboard \<Rightarrow> 'a dashboard" where
  "initFilters s =
     initGroupFilter
       (initSelectFilter ''township-filter'' ''TS_MMR_DASH''
         (initSelectFilter ''state-filter'' ''ST_MMR'' s))"

text \<open>The event handlers: what each listener does with the value it is given.\<close>

definition on_state_change :: "(string \<Rightarrow> jsnum) \<Rightarrow> string \<Rightarrow> 'a dashboard \<Rightarrow> 'a outcome" where
  "on_state_change Date_parse v s =
     updateDashboard Date_parse
       (updateGroupFilter
         (updateTownshipFilter (s\<lparr> filters := (filters s)\<lparr> state := v \<rparr> \<rparr>)))"

definition on_township_change :: "(string \<Rightarrow> jsnum) \<Rightarrow> string \<Rightarrow> 'a dashboard \<Rightarrow> 'a outcome" where
  "on_township_change Date_parse v s =
     updateDashboard Date_parse
       (updateGroupFilter (s\<lparr> filters := (filters s)\<lparr> township := v \<rparr> \<rparr>))"

definition on_group_change :: "(string \<Rightarrow> jsnum) \<Rightarrow> string \<Rightarrow> 'a dashboard \<Rightarrow> 'a outcome" where
  "on_group_change Date_parse v s =
     updateDashboard Date_parse (s\<lparr> filters := (filters s)\<lparr> group := v \<rparr> \<rparr>)"

text \<open>\<^verbatim>\<open>[this.filters.startDate, this.filters.endDate] = dates\<close>.\<close>

definition on_dates_change :: "(string \<Rightarrow> jsnum) \<Rightarrow> jsnum list \<Rightarrow> 'a dashboard \<Rightarrow> 'a outcome" where
  "on_dates_change Date_parse dates s =
     updateDashboard Date_parse
       (s\<lparr> filters := (filters s)
              \<lparr> startDate := (case dates of [] \<Rightarrow> None | d # _ \<Rightarrow> Some d),
                endDate := (case drop 1 dates of [] \<Rightarrow> None | d # _ \<Rightarrow> Some d) \<rparr> \<rparr>)"

section \<open>Start-up\<close>

text \<open>
  \<^verbatim>\<open>loadData\<close> awaits \<^verbatim>\<open>Promise.all\<close> of the two fetches. Each fetch ends
  with a value (\<open>Inr\<close>) or is rejected (\<open>Inl\<close>); \<^verbatim>\<open>Promise.all\<close> is rejected
  with the reason of the fetch that failed first (\<open>sheet_first\<close> says which, when
  both fail). The \<^verbatim>\<open>catch\<close> block logs the reason and returns.
\<close>

definition Promise_all ::
  "bool \<Rightarrow> js_error + row list \<Rightarrow> js_error + 'a geojson \<Rightarrow>
   js_error + (row list \<times> 'a geojson)" where
  "Promise_all sheet_first sheetResponse geoResponse =
     (case sheetResponse of
        Inr sheet \<Rightarrow> (case geoResponse of Inr geo \<Rightarrow> Inr (sheet, geo) | Inl e \<Rightarrow> Inl e)
      | Inl e1 \<Rightarrow>
          (case geoResponse of
             Inr geo \<Rightarrow> Inl e1
           | Inl e2 \<Rightarrow> Inl (if sheet_first then e1 else e2)))"

definition console_error :: "js_error \<Rightarrow> 'a dashboard \<Rightarrow> 'a dashboard" where
  "console_error e s = s\<lparr> console := console s @ [e] \<rparr>"

definition loadData ::
  "bool \<Rightarrow> js_error + row list \<Rightarrow> js_error + 'a geojson \<Rightarrow> 'a dashboard \<Rightarrow> 'a dashboard" where
  "loadData sheet_first sheetResponse geoResponse s =
     (case Promise_all sheet_first sheetResponse geoResponse of
        Inl error \<Rightarrow> console_error error s
      | Inr (sheet, geo) \<Rightarrow>
          (let s1 = s\<lparr> sheetData := sheet, geoData := Some geo \<rparr>
           in case mergeData s1 of
                Inl error \<Rightarrow> console_error error s1
              | Inr md \<Rightarrow> s1\<lparr> mergedData := Some md \<rparr>))"

definition initMap :: "'a dashboard \<Rightarrow> 'a dashboard" where
  "initMap s = s\<lparr> map_obj := Some [] \<rparr>"

definition initDatePicker :: "'a dashboard \<Rightarrow> 'a dashboard" where
  "initDatePicker s = s\<lparr> document := (document s)\<lparr> date_picker := True \<rparr> \<rparr>"

definition init ::
  "(string \<Rightarrow> jsnum) \<Rightarrow> bool \<Rightarrow> js_error + row list \<Rightarrow> js_error + 'a geojson \<Rightarrow>
   'a dashboard \<Rightarrow> 'a outcome" where
  "init Date_parse sheet_first sheetResponse geoResponse s =
     updateDashboard Date_parse
       (initDatePicker (initFilters (initMap
         (loadData sheet_first sheetResponse geoResponse s))))"

section \<open>The properties to be checked, and the data of the examples\<close>

text \<open>A boundary feature and a row match when \<^verbatim>\<open>d.TS_MMR_DASH === township\<close>.\<close>

definition township_matches :: "'a feature \<Rightarrow> row \<Rightarrow> bool" where
  "township_matches feature d =
     strict_eq (row_get d ''TS_MMR_DASH'') (get (properties feature) ''TS_MMR'')"

text \<open>
  The filter condition in the words of the specification: the date lies within
  the bounds that are set, and each select filter is the sentinel or the
  property is exactly the chosen string.
\<close>

definition date_in_range :: "jsnum option \<Rightarrow> jsnum option \<Rightarrow> jsnum \<Rightarrow> bool" where
  "date_in_range lo hi t =
     ((case lo of None \<Rightarrow> True | Some a \<Rightarrow> js_le a t) \<and>
      (case hi of None \<Rightarrow> True | Some b \<Rightarrow> js_le t b))"

definition field_is :: "'a merged \<Rightarrow> string \<Rightarrow> string \<Rightarrow> bool" where
  "field_is feature key v = (props feature key = Some (JStr v))"

definition satisfies :: "(string \<Rightarrow> jsnum) \<Rightarrow> filters \<Rightarrow> 'a merged \<Rightarrow> bool" where
  "satisfies Date_parse flt feature =
     (date_in_range (startDate flt) (endDate flt)
        (new_Date Date_parse (get (props feature) ''Date'')) \<and>
      (state flt = all_option \<or> field_is feature ''ST_MMR'' (state flt)) \<and>
      (township flt = all_option \<or> field_is feature ''TS_MMR_DASH'' (township flt)) \<and>
      (group flt = all_option \<or> field_is feature ''Groups'' (group flt)))"

text \<open>The distinct elements of a list, in the order of their first occurrence.\<close>

fun first_occurrences :: "'b list \<Rightarrow> 'b list" where
  "first_occurrences [] = []"
| "first_occurrences (x # xs) = x # first_occurrences (filter (\<lambda>y. y \<noteq> x) xs)"

text \<open>
  The non-empty \<^verbatim>\<open>TS_MMR_DASH\<close> values of the rows whose \<^verbatim>\<open>ST_MMR\<close> is
  \<open>v\<close> (of all rows when \<open>v\<close> is the sentinel), in row order.
\<close>

definition township_values :: "string \<Rightarrow> row list \<Rightarrow> string list" where
  "township_values v rows =
     concat (map (\<lambda>d. case d ''TS_MMR_DASH'' of
                         Some (Text t) \<Rightarrow> if t = [] then [] else [t]
                       | _ \<Rightarrow> [])
                 (filter (\<lambda>d. v = all_option \<or> d ''ST_MMR'' = Some (Text v)) rows))"

definition zero_totals :: totals where
  "zero_totals =
     \<lparr> sacrificeSac = Fin 0, revolutionMartyrs = Fin 0, capturedBases = Fin 0,
       prisonersWar = Fin 0 \<rparr>"

text \<open>A page on which nothing has been written yet.\<close>

definition blank_page :: page where
  "blank_page =
     \<lparr> select_options = (\<lambda>elementId. []), change_listeners = {}, date_picker = False,
       cards = None, headlines = None \<rparr>"

text \<open>
  The end-to-end example: two boundary features, \<^verbatim>\<open>town1\<close> and
  \<^verbatim>\<open>town2\<close>, and the single row
  \<^verbatim>\<open>{TS_MMR_DASH: "town1", Time: "5", ST_MMR: "S1"}\<close>.
\<close>

definition example_geo :: "unit geojson" where
  "example_geo =
     \<lparr> features =
         [\<lparr> members = (), properties = [''TS_MMR'' \<mapsto> JStr ''town1''] \<rparr>,
          \<lparr> members = (), properties = [''TS_MMR'' \<mapsto> JStr ''town2''] \<rparr>] \<rparr>"

definition example_sheet :: "row list" where
  "example_sheet =
     [[''TS_MMR_DASH'' \<mapsto> Text ''town1'', ''Time'' \<mapsto> Text ''5'',
       ''ST_MMR'' \<mapsto> Text ''S1'']]"

definition example_loaded :: "unit dashboard" where
  "example_loaded =
     loadData True (Inr example_sheet) (Inr example_geo) (constructor blank_page)"

text \<open>
  The fixture of the township dropdown: only the rows of townships \<^verbatim>\<open>T1\<close>
  and \<^verbatim>\<open>T2\<close> carry the state \<^verbatim>\<open>Region A\<close>.
\<close>

definition region_sheet :: "row list" where
  "region_sheet =
     [[''ST_MMR'' \<mapsto> Text ''Region A'', ''TS_MMR_DASH'' \<mapsto> Text ''T1''],
      [''ST_MMR'' \<mapsto> Text ''Region B'', ''TS_MMR_DASH'' \<mapsto> Text ''T3''],
      [''ST_MMR'' \<mapsto> Text ''Region A'', ''TS_MMR_DASH'' \<mapsto> Text ''T2''],
      [''ST_MMR'' \<mapsto> Text ''Region A'', ''TS_MMR_DASH'' \<mapsto> Text ''T1''],
      [''ST_MMR'' \<mapsto> Text ''Region B'', ''TS_MMR_DASH'' \<mapsto> Text ''T4'']]"

text \<open>A merged feature whose first count column holds text that is not a number.\<close>

definition unparseable_feature :: "unit merged" where
  "unparseable_feature =
     \<lparr> base = (), props = [key_sacrificeSac \<mapsto> JStr ''n/a''], totalTime = Fin 0 \<rparr>"

text \<open>A merged feature with a given count and no other property.\<close>

definition plain_feature :: "jsnum \<Rightarrow> unit merged" where
  "plain_feature n = \<lparr> base = (), props = Map.empty, totalTime = n \<rparr>"

text \<open>
  The example with an empty sheet, after \<^verbatim>\<open>loadData\<close> and
  \<^verbatim>\<open>initMap\<close>: no feature has a row, so every count is 0.
\<close>

definition zero_loaded :: "unit dashboard" where
  "zero_loaded = initMap (loadData True (Inr []) (Inr example_geo) (constructor blank_page))"

text \<open>The example again, with the state filter set to a state no row has.\<close>

definition filtered_out :: "unit dashboard" where
  "filtered_out = zero_loaded\<lparr> filters := (filters zero_loaded)\<lparr> state := ''Nowhere'' \<rparr> \<rparr>"

text \<open>The end-to-end example with the state filter set to \<^verbatim>\<open>S1\<close>.\<close>

definition example_filtered :: "unit dashboard" where
  "example_filtered = example_loaded\<lparr> filters := (filters example_loaded)\<lparr> state := ''S1'' \<rparr> \<rparr>"

text \<open>
  A sheet in which two rows carry the township \<^verbatim>\<open>town1\<close>, the first of them
  with a column named like a property of the boundary feature.
\<close>

definition row_a :: row where
  "row_a = [''TS_MMR_DASH'' \<mapsto> Text ''town2'', ''Time'' \<mapsto> Text ''7'']"

definition row_b :: row where
  "row_b = [''TS_MMR_DASH'' \<mapsto> Text ''town1'', ''Time'' \<mapsto> Text ''5'',
            ''TS_MMR'' \<mapsto> Text ''Town One'']"

definition row_c :: row where
  "row_c = [''TS_MMR_DASH'' \<mapsto> Text ''town1'', ''Time'' \<mapsto> Text ''9'']"

definition duplicate_loaded :: "unit dashboard" where
  "duplicate_loaded =
     loadData True (Inr [row_a, row_b, row_c]) (Inr example_geo) (constructor blank_page)"

text \<open>
  Start-up on a blank page when the sheet cannot be fetched and the boundary
  file can.
\<close>

definition failed_start :: "unit outcome" where
  "failed_start =
     init (\<lambda>t. NaN) True (Inl (Rejected ''network'')) (Inr example_geo) (constructor blank_page)"

text \<open>Strings of decimal digits and the number they denote.\<close>

definition is_digit :: "char \<Rightarrow> bool" where
  "is_digit c = (48 \<le> (of_char c :: nat) \<and> (of_char c :: nat) \<le> 57)"

definition decimal_value :: "string \<Rightarrow> nat" where
  "decimal_value s = foldl (\<lambda>acc c. acc * 10 + (of_char c - 48)) 0 s"

section \<open>Facts about the library functions\<close>

lemmas StringToInt_defs =
  StringToInt_def ws_len_def ws1_def ws2_def ws3_def digit_val_def digits_value_def

lemma StringToInt_5: "StringToInt ''5'' = Fin 5"
  by (simp add: StringToInt_defs)

lemma StringToInt_na: "StringToInt ''n/a'' = NaN"
  by (simp add: StringToInt_defs)

lemma StringToInt_undefined: "StringToInt ''undefined'' = NaN"
  by (simp add: StringToInt_defs)

subsection \<open>parseInt reads a string of decimal digits as the number it denotes\<close>

lemma digit_val_digit:
  assumes "is_digit c"
  shows "digit_val 10 c = Some (of_char c - 48)"
proof -
  define n where "n = (of_char c :: nat)"
  from assms have "48 \<le> n" "n \<le> 57"
    by (simp_all add: is_digit_def n_def)
  then have "(if 48 \<le> n \<and> n \<le> 57 then Some (n - 48)
               else if 97 \<le> n \<and> n \<le> 122 then Some (n - 87)
               else if 65 \<le> n \<and> n \<le> 90 then Some (n - 55)
               else None) = Some (n - 48)" and "n - 48 < 10"
    by simp_all
  then show ?thesis
    by (simp add: digit_val_def Let_def n_def [symmetric])
qed

lemma leading_digits_all:
  "\<forall>c\<in>set s. is_digit c \<Longrightarrow> leading_digits 10 s = map (\<lambda>c. of_char c - 48) s"
  by (induction s) (simp_all add: digit_val_digit)

lemma white_space_first:
  "x \<in> set ws1 \<union> set ws2 \<union> set ws3 \<Longrightarrow> x \<noteq> [] \<and> \<not> is_digit (hd x)"
  by (auto simp: ws1_def ws2_def ws3_def is_digit_def)

lemma ws_len_digit:
  assumes "is_digit c"
  shows "ws_len (c # r) = 0"
proof -
  have "take (Suc n) (c # r) \<notin> set ws1 \<union> set ws2 \<union> set ws3" for n
    using white_space_first [of "take (Suc n) (c # r)"] assms by auto
  from this [of 0] this [of 1] this [of 2] show ?thesis
    by (simp add: ws_len_def numeral_2_eq_2 numeral_3_eq_3)
qed

lemma not_digit_chars:
  "\<not> is_digit CHR ''-''" "\<not> is_digit CHR ''+''" "\<not> is_digit CHR ''x''" "\<not> is_digit CHR ''X''"
  by (simp_all add: is_digit_def)

lemma no_sign_digit: "is_digit c \<Longrightarrow> take 1 (c # r) \<noteq> ''-'' \<and> take 1 (c # r) \<noteq> ''+''"
  using not_digit_chars by auto

lemma no_hex_prefix:
  assumes "\<forall>c\<in>set s. is_digit c"
  shows "take 2 s \<noteq> ''0x'' \<and> take 2 s \<noteq> ''0X''"
proof (cases s)
  case Nil
  then show ?thesis by simp
next
  case (Cons c r)
  show ?thesis
  proof (cases r)
    case Nil
    with Cons show ?thesis by simp
  next
    case (Cons c' r')
    with assms \<open>s = c # r\<close> have "is_digit c'" by simp
    then show ?thesis
      using Cons \<open>s = c # r\<close> not_digit_chars by auto
  qed
qed

lemma StringToInt_decimal:
  assumes "s \<noteq> []" and "\<forall>c\<in>set s. is_digit c"
  shows "StringToInt s = Fin (of_nat (decimal_value s))"
proof -
  from assms obtain c r where s: "s = c # r" and c: "is_digit c"
    by (cases s) auto
  have w: "skip_ws s = s"
    by (simp add: s ws_len_digit [OF c])
  have d: "leading_digits 10 s = map (\<lambda>c. of_char c - 48) s"
    by (rule leading_digits_all [OF assms(2)])
  have v: "digits_value 10 (map (\<lambda>c. of_char c - 48) s) = decimal_value s"
    by (simp add: digits_value_def decimal_value_def foldl_map)
  from no_sign_digit [OF c, of r] no_hex_prefix [OF assms(2)] show ?thesis
    unfolding StringToInt_def w Let_def
    by (simp add: s [symmetric] d v assms(1))
qed

subsection \<open>Math.max\<close>

lemma Math_max_Nil: "Math_max [] = NInf"
  by (simp add: Math_max_def)

lemma fold_max2_zeros:
  "\<forall>x\<in>set xs. x = Fin 0 \<Longrightarrow> fold (\<lambda>x highest. max2 highest x) xs (Fin 0) = Fin 0"
  by (induction xs) (simp_all add: max2_def)

lemma Math_max_zeros:
  assumes "xs \<noteq> []" and "\<forall>x\<in>set xs. x = Fin 0"
  shows "Math_max xs = Fin 0"
proof (cases xs)
  case Nil
  with assms show ?thesis by simp
next
  case (Cons y ys)
  with assms have "y = Fin 0" and "\<forall>x\<in>set ys. x = Fin 0" by simp_all
  moreover have "max2 NInf (Fin 0) = Fin 0"
    by (simp add: max2_def)
  ultimately show ?thesis
    using Cons by (simp add: Math_max_def fold_max2_zeros)
qed

subsection \<open>A Set lists its elements in the order of their first occurrence\<close>

lemma fold_Set_insert:
  "fold (\<lambda>x acc. if x \<in> set acc then acc else acc @ [x]) xs acc =
     acc @ first_occurrences (filter (\<lambda>x. x \<notin> set acc) xs)"
proof (induction xs arbitrary: acc)
  case Nil
  show ?case by simp
next
  case (Cons x xs)
  show ?case
  proof (cases "x \<in> set acc")
    case True
    then show ?thesis by (simp add: Cons.IH)
  next
    case False
    have "filter (\<lambda>y. y \<noteq> x) (filter (\<lambda>y. y \<notin> set acc) xs) =
            filter (\<lambda>y. y \<notin> set (acc @ [x])) xs"
      by (auto intro: filter_cong)
    with False show ?thesis by (simp add: Cons.IH)
  qed
qed

lemma Set_values_first_occurrences: "Set_values xs = first_occurrences xs"
  by (simp add: Set_values_def fold_Set_insert)

lemma set_first_occurrences: "set (first_occurrences xs) = set xs"
  by (induction xs rule: first_occurrences.induct) auto

lemma distinct_first_occurrences: "distinct (first_occurrences xs)"
  by (induction xs rule: first_occurrences.induct) (auto simp: set_first_occurrences)

lemma first_occurrences_map:
  "inj_on f (set xs) \<Longrightarrow> first_occurrences (map f xs) = map f (first_occurrences xs)"
proof (induction xs rule: first_occurrences.induct)
  case 1
  show ?case by simp
next
  case (2 x xs)
  have "filter (\<lambda>y. y \<noteq> f x) (map f xs) = map f (filter (\<lambda>y. y \<noteq> x) xs)"
    using "2.prems"
    by (auto simp: filter_map comp_def inj_on_def intro!: arg_cong[of _ _ "map f"] filter_cong)
  moreover have "inj_on f (set (filter (\<lambda>y. y \<noteq> x) xs))"
    using "2.prems" by (auto simp: inj_on_def)
  ultimately show ?case
    using "2.IH" by simp
qed

subsection \<open>Strict equality with a string\<close>

lemma strict_eq_JStr:
  "strict_eq (get obj key) (JStr v) \<longleftrightarrow> obj key = Some (JStr v)"
  by (auto simp: strict_eq_def get_def split: option.splits)

lemma row_get_Text:
  "strict_eq (row_get d key) (JStr v) \<longleftrightarrow> d key = Some (Text v)"
proof (cases "d key")
  case None
  then show ?thesis by (simp add: strict_eq_def row_get_def)
next
  case (Some c)
  then show ?thesis by (cases c) (auto simp: strict_eq_def row_get_def)
qed

section \<open>The join\<close>

lemmas startup_defs =
  loadData_def Promise_all_def mergeData_def constructor_def initMap_def console_error_def

lemma find_first_match:
  assumes "\<forall>p\<in>set pre. \<not> P p" and "P d"
  shows "find P (pre @ d # post) = Some d"
  using assms by (induction pre) simp_all

lemma merge_feature_unmatched:
  assumes "\<forall>d\<in>set sheet. \<not> township_matches feature d"
  shows "merge_feature sheet feature =
           \<lparr> base = members feature, props = properties feature |` (- {''totalTime''}),
             totalTime = Fin 0 \<rparr>"
proof -
  have "find (\<lambda>d. strict_eq (row_get d ''TS_MMR_DASH'') (get (properties feature) ''TS_MMR''))
          sheet = None"
    using assms by (simp add: find_None_iff township_matches_def)
  then show ?thesis
    by (simp add: merge_feature_def)
qed

lemma merge_feature_matched:
  assumes "sheet = pre @ d # post" and "\<forall>p\<in>set pre. \<not> township_matches feature p"
    and "township_matches feature d"
  shows "merge_feature sheet feature =
           \<lparr> base = members feature,
             props = (properties feature ++ row_props d) |` (- {''totalTime''}),
             totalTime = or_zero (parseInt (row_get d ''Time'')) \<rparr>"
proof -
  have "find (\<lambda>d. strict_eq (row_get d ''TS_MMR_DASH'') (get (properties feature) ''TS_MMR''))
          sheet = Some d"
    unfolding assms(1) using assms(2,3)
    by (intro find_first_match) (simp_all add: township_matches_def)
  then show ?thesis
    by (simp add: merge_feature_def)
qed

lemma or_zero_parse: "or_zero n = (if n = NaN then Fin 0 else n)"
  by (simp add: or_zero_def)

lemma example_merged:
  "map (merge_feature example_sheet) (features example_geo) =
     [\<lparr> base = (),
        props = [''TS_MMR'' \<mapsto> JStr ''town1'', ''TS_MMR_DASH'' \<mapsto> JStr ''town1'',
                 ''Time'' \<mapsto> JStr ''5'', ''ST_MMR'' \<mapsto> JStr ''S1''],
        totalTime = Fin 5 \<rparr>,
      \<lparr> base = (), props = [''TS_MMR'' \<mapsto> JStr ''town2''], totalTime = Fin 0 \<rparr>]"
  by (auto simp add: example_geo_def example_sheet_def merge_feature_def get_def row_get_def
      strict_eq_def or_zero_def StringToInt_5 row_props_def restrict_map_def map_add_def
      fun_eq_iff)

lemma example_loaded_fields:
  "mergedData example_loaded = Some (map (merge_feature example_sheet) (features example_geo))"
  "filters example_loaded = filters (constructor blank_page :: unit dashboard)"
  "map_obj example_loaded = None"
  "currentLayer example_loaded = None"
  "sheetData example_loaded = example_sheet"
  "geoData example_loaded = Some example_geo"
  by (simp_all add: example_loaded_def startup_defs)

lemma duplicate_loaded_fields:
  "geoData duplicate_loaded = Some example_geo"
  "sheetData duplicate_loaded = [row_a] @ row_b # [row_c]"
  by (simp_all add: duplicate_loaded_def startup_defs)

text \<open>
  Claim C1. \<^verbatim>\<open>mergeData\<close> returns one merged feature per boundary feature,
  in order; a boundary feature that no row matches gets \<^verbatim>\<open>totalTime\<close> 0 and
  only its own properties, so that every column of the sheet it does not have
  itself reads as \<^verbatim>\<open>undefined\<close>.
\<close>

theorem mergeData_outer_join:
  assumes "geoData s = Some geo"
  shows "case mergeData s of
           Inl e \<Rightarrow> False
         | Inr md \<Rightarrow>
             length md = length (features geo) \<and>
             (\<forall>i<length (features geo).
                (\<forall>d\<in>set (sheetData s). \<not> township_matches (features geo ! i) d) \<longrightarrow>
                totalTime (md ! i) = Fin 0 \<and>
                base (md ! i) = members (features geo ! i) \<and>
                props (md ! i) = properties (features geo ! i) |` (- {''totalTime''}) \<and>
                (\<forall>key. properties (features geo ! i) key = None \<longrightarrow>
                       get (props (md ! i)) key = JUndefined))"
  using assms
  by (auto simp: mergeData_def merge_feature_unmatched get_def restrict_map_def)

theorem mergeData_outer_join_witness:
  "geoData example_loaded = Some example_geo \<and>
   \<not> township_matches (features example_geo ! 1) (example_sheet ! 0) \<and>
   (case mergeData example_loaded of
      Inl e \<Rightarrow> False
    | Inr md \<Rightarrow>
        length md = 2 \<and> totalTime (md ! 1) = Fin 0 \<and>
        get (props (md ! 1)) ''TS_MMR'' = JStr ''town2'' \<and>
        get (props (md ! 1)) ''Time'' = JUndefined \<and>
        get (props (md ! 1)) ''ST_MMR'' = JUndefined)"
proof -
  note g = example_loaded_fields(6)
  have n: "\<not> township_matches (features example_geo ! 1) (example_sheet ! 0)"
    by (simp add: township_matches_def example_geo_def example_sheet_def row_get_def get_def
        strict_eq_def)
  then have u: "\<forall>d\<in>set (sheetData example_loaded).
                  \<not> township_matches (features example_geo ! 1) d"
    by (simp add: example_loaded_fields example_sheet_def)
  have l: "length (features example_geo) = 2" "(1::nat) < 2"
    by (simp_all add: example_geo_def)
  note t = mergeData_outer_join [OF g]
  show ?thesis
  proof (cases "mergeData example_loaded")
    case (Inl e)
    with t show ?thesis by simp
  next
    case (Inr md)
    with t have len: "length md = 2"
      by (simp add: l)
    from t Inr l(2) u have
      "totalTime (md ! 1) = Fin 0 \<and>
       props (md ! 1) = properties (features example_geo ! 1) |` (- {''totalTime''})"
      by (simp add: l(1))
    then show ?thesis
      using g n Inr len by (simp add: get_def restrict_map_def) (simp add: example_geo_def)
  qed
qed

text \<open>
  Claim C3. For a boundary feature, the merged properties are the feature's
  properties overlaid with the fields of the first row, in row order, that
  matches it: a field of the row wins over a property of the same name, and
  later matching rows are ignored. Its \<^verbatim>\<open>totalTime\<close> is \<^verbatim>\<open>parseInt\<close> of
  that row's \<^verbatim>\<open>Time\<close> (the number a string of decimal digits denotes), and
  0 when no row matches, when the row has no \<^verbatim>\<open>Time\<close>, or when
  \<^verbatim>\<open>parseInt\<close> fails.
\<close>

theorem mergeData_first_match:
  assumes "geoData s = Some geo" and "i < length (features geo)"
  shows "case mergeData s of
           Inl e \<Rightarrow> False
         | Inr md \<Rightarrow>
             (\<forall>pre d post.
                sheetData s = pre @ d # post \<and>
                (\<forall>p\<in>set pre. \<not> township_matches (features geo ! i) p) \<and>
                township_matches (features geo ! i) d \<longrightarrow>
                (\<forall>key. key \<noteq> ''totalTime'' \<longrightarrow>
                   props (md ! i) key =
                     (case d key of
                        Some c \<Rightarrow> Some (cell_val c)
                      | None \<Rightarrow> properties (features geo ! i) key)) \<and>
                totalTime (md ! i) =
                  (if parseInt (row_get d ''Time'') = NaN then Fin 0
                   else parseInt (row_get d ''Time'')) \<and>
                (d ''Time'' = None \<longrightarrow> totalTime (md ! i) = Fin 0) \<and>
                (\<forall>t. d ''Time'' = Some (Text t) \<and> t \<noteq> [] \<and> (\<forall>c\<in>set t. is_digit c) \<longrightarrow>
                   totalTime (md ! i) = Fin (of_nat (decimal_value t)))) \<and>
             ((\<forall>d\<in>set (sheetData s). \<not> township_matches (features geo ! i) d) \<longrightarrow>
                (\<forall>key. key \<noteq> ''totalTime'' \<longrightarrow>
                   props (md ! i) key = properties (features geo ! i) key) \<and>
                totalTime (md ! i) = Fin 0)"
proof -
  let ?f = "features geo ! i"
  let ?m = "merge_feature (sheetData s) ?f"
  have m: "mergeData s = Inr (map (merge_feature (sheetData s)) (features geo))"
    by (simp add: mergeData_def assms(1))
  have n: "map (merge_feature (sheetData s)) (features geo) ! i = ?m"
    using assms(2) by simp
  have a: "(\<forall>key. key \<noteq> ''totalTime'' \<longrightarrow>
             props ?m key =
               (case d key of Some c \<Rightarrow> Some (cell_val c) | None \<Rightarrow> properties ?f key)) \<and>
           totalTime ?m =
             (if parseInt (row_get d ''Time'') = NaN then Fin 0
              else parseInt (row_get d ''Time'')) \<and>
           (d ''Time'' = None \<longrightarrow> totalTime ?m = Fin 0) \<and>
           (\<forall>t. d ''Time'' = Some (Text t) \<and> t \<noteq> [] \<and> (\<forall>c\<in>set t. is_digit c) \<longrightarrow>
              totalTime ?m = Fin (of_nat (decimal_value t)))"
    if h: "sheetData s = pre @ d # post \<and> (\<forall>p\<in>set pre. \<not> township_matches ?f p) \<and>
      township_matches ?f d" for pre d post
  proof -
    from h have e: "?m = \<lparr> base = members ?f,
             props = (properties ?f ++ row_props d) |` (- {''totalTime''}),
             totalTime = or_zero (parseInt (row_get d ''Time'')) \<rparr>"
      by (intro merge_feature_matched) auto
    have 1: "props ?m key =
               (case d key of Some c \<Rightarrow> Some (cell_val c) | None \<Rightarrow> properties ?f key)"
      if "key \<noteq> ''totalTime''" for key
      using that by (simp add: e map_add_def row_props_def restrict_map_def split: option.splits)
    have 2: "totalTime ?m = (if parseInt (row_get d ''Time'') = NaN then Fin 0
              else parseInt (row_get d ''Time''))"
      by (simp add: e or_zero_parse)
    have 3: "totalTime ?m = Fin 0" if "d ''Time'' = None"
      using that by (simp add: e or_zero_parse row_get_def StringToInt_undefined)
    have 4: "totalTime ?m = Fin (of_nat (decimal_value t))"
      if "d ''Time'' = Some (Text t) \<and> t \<noteq> [] \<and> (\<forall>c\<in>set t. is_digit c)" for t
    proof -
      from that have "parseInt (row_get d ''Time'') = Fin (of_nat (decimal_value t))"
        by (simp add: row_get_def StringToInt_decimal)
      then show ?thesis
        by (simp add: 2)
    qed
    from 1 2 3 4 show ?thesis by blast
  qed
  have b: "(\<forall>key. key \<noteq> ''totalTime'' \<longrightarrow> props ?m key = properties ?f key) \<and>
           totalTime ?m = Fin 0"
    if "\<forall>d\<in>set (sheetData s). \<not> township_matches ?f d"
    by (simp add: merge_feature_unmatched [OF that] restrict_map_def)
  have A: "\<forall>pre d post.
             sheetData s = pre @ d # post \<and> (\<forall>p\<in>set pre. \<not> township_matches ?f p) \<and>
             township_matches ?f d \<longrightarrow>
             (\<forall>key. key \<noteq> ''totalTime'' \<longrightarrow>
                props ?m key =
                  (case d key of Some c \<Rightarrow> Some (cell_val c) | None \<Rightarrow> properties ?f key)) \<and>
             totalTime ?m =
               (if parseInt (row_get d ''Time'') = NaN then Fin 0
                else parseInt (row_get d ''Time'')) \<and>
             (d ''Time'' = None \<longrightarrow> totalTime ?m = Fin 0) \<and>
             (\<forall>t. d ''Time'' = Some (Text t) \<and> t \<noteq> [] \<and> (\<forall>c\<in>set t. is_digit c) \<longrightarrow>
                totalTime ?m = Fin (of_nat (decimal_value t)))"
    by (intro allI impI) (erule a)
  have B: "(\<forall>d\<in>set (sheetData s). \<not> township_matches ?f d) \<longrightarrow>
           (\<forall>key. key \<noteq> ''totalTime'' \<longrightarrow> props ?m key = properties ?f key) \<and>
           totalTime ?m = Fin 0"
    by (intro impI) (erule b)
  show ?thesis
    unfolding m n sum.case by (rule conjI [OF A B])
qed

theorem mergeData_first_match_witness:
  "geoData duplicate_loaded = Some example_geo \<and> (0::nat) < length (features example_geo) \<and>
   sheetData duplicate_loaded = [row_a] @ row_b # [row_c] \<and>
   \<not> township_matches (features example_geo ! 0) row_a \<and>
   township_matches (features example_geo ! 0) row_b \<and>
   township_matches (features example_geo ! 0) row_c \<and>
   (case mergeData duplicate_loaded of
      Inl e \<Rightarrow> False
    | Inr md \<Rightarrow>
        props (md ! 0) ''TS_MMR'' = Some (JStr ''Town One'') \<and>
        props (md ! 0) ''TS_MMR_DASH'' = Some (JStr ''town1'') \<and>
        totalTime (md ! 0) = Fin 5)"
proof -
  note g = duplicate_loaded_fields(1)
  note d = duplicate_loaded_fields(2)
  have l: "(0::nat) < length (features example_geo)"
    by (simp add: example_geo_def)
  have a: "\<not> township_matches (features example_geo ! 0) row_a"
    and b: "township_matches (features example_geo ! 0) row_b"
    and c: "township_matches (features example_geo ! 0) row_c"
    by (simp_all add: township_matches_def example_geo_def row_a_def row_b_def row_c_def
        row_get_def get_def strict_eq_def)
  have pre: "\<forall>p\<in>set [row_a]. \<not> township_matches (features example_geo ! 0) p"
    using a by simp
  have t: "parseInt (row_get row_b ''Time'') = Fin 5"
    by (simp add: row_b_def row_get_def StringToInt_5)
  note inst = mergeData_first_match [OF g l]
  show ?thesis
  proof (cases "mergeData duplicate_loaded")
    case (Inl e)
    with inst show ?thesis by simp
  next
    case (Inr md)
    from inst have i: "\<forall>pre d post.
          sheetData duplicate_loaded = pre @ d # post \<and>
          (\<forall>p\<in>set pre. \<not> township_matches (features example_geo ! 0) p) \<and>
          township_matches (features example_geo ! 0) d \<longrightarrow>
          (\<forall>key. key \<noteq> ''totalTime'' \<longrightarrow>
             props (md ! 0) key =
               (case d key of
                  Some c \<Rightarrow> Some (cell_val c)
                | None \<Rightarrow> properties (features example_geo ! 0) key)) \<and>
          totalTime (md ! 0) =
            (if parseInt (row_get d ''Time'') = NaN then Fin 0
             else parseInt (row_get d ''Time'')) \<and>
          (d ''Time'' = None \<longrightarrow> totalTime (md ! 0) = Fin 0) \<and>
          (\<forall>t. d ''Time'' = Some (Text t) \<and> t \<noteq> [] \<and> (\<forall>c\<in>set t. is_digit c) \<longrightarrow>
             totalTime (md ! 0) = Fin (of_nat (decimal_value t)))"
      unfolding Inr sum.case by (rule conjunct1)
    have h: "sheetData duplicate_loaded = [row_a] @ row_b # [row_c] \<and>
          (\<forall>p\<in>set [row_a]. \<not> township_matches (features example_geo ! 0) p) \<and>
          township_matches (features example_geo ! 0) row_b"
      using d pre b by (intro conjI)
    note j = i [THEN spec, THEN spec, THEN spec, THEN mp, OF h]
    from j have
      k: "\<forall>key. key \<noteq> ''totalTime'' \<longrightarrow>
             props (md ! 0) key =
               (case row_b key of
                  Some c \<Rightarrow> Some (cell_val c)
                | None \<Rightarrow> properties (features example_geo ! 0) key)"
      and tt: "totalTime (md ! 0) =
            (if parseInt (row_get row_b ''Time'') = NaN then Fin 0
             else parseInt (row_get row_b ''Time''))"
      by (rule conjunct1, rule conjunct2 [THEN conjunct1])
    from k have "props (md ! 0) ''TS_MMR'' = Some (JStr ''Town One'')"
      "props (md ! 0) ''TS_MMR_DASH'' = Some (JStr ''town1'')"
      by (simp_all add: row_b_def)
    with tt t show ?thesis
      using g l d a b c Inr by simp
  qed
qed

section \<open>The filter\<close>

lemma filter_callback_all:
  assumes "startDate flt = None" "endDate flt = None" "state flt = all_option"
    "township flt = all_option" "group flt = all_option"
  shows "filter_callback dp flt f"
  using assms by (simp add: filter_callback_def)

lemma filter_callback_unset: "filter_callback dp (filters (constructor pg)) f"
  by (simp add: filter_callback_def constructor_def)

lemma filter_callback_satisfies: "filter_callback dp flt f \<longleftrightarrow> satisfies dp flt f"
  by (simp add: filter_callback_def satisfies_def date_in_range_def field_is_def
      strict_eq_JStr js_ge_def Let_def split: option.splits)

text \<open>
  Claim C2. On a dashboard whose merged data is set, \<^verbatim>\<open>applyFilters\<close>
  returns exactly the merged features, in order, whose date lies within the
  bounds that are set (both inclusive) and whose \<^verbatim>\<open>ST_MMR\<close>,
  \<^verbatim>\<open>TS_MMR_DASH\<close> and \<^verbatim>\<open>Groups\<close> are the chosen strings, a select filter at
  the sentinel imposing nothing. The result is a subset of the merged set, and
  with no bound and three sentinels it is the whole merged set.
\<close>

theorem applyFilters_exact:
  assumes "mergedData s = Some md"
  shows "applyFilters dp s = Inr (filter (satisfies dp (filters s)) md) \<and>
         set (filter (satisfies dp (filters s)) md) \<subseteq> set md \<and>
         (startDate (filters s) = None \<and> endDate (filters s) = None \<and>
          state (filters s) = all_option \<and> township (filters s) = all_option \<and>
          group (filters s) = all_option \<longrightarrow> applyFilters dp s = Inr md)"
proof -
  have eq: "filter_callback dp (filters s) = satisfies dp (filters s)"
    by (rule ext) (rule filter_callback_satisfies)
  have "applyFilters dp s = Inr (filter (satisfies dp (filters s)) md)"
    by (simp add: applyFilters_def assms eq)
  moreover have "applyFilters dp s = Inr md"
    if "startDate (filters s) = None" "endDate (filters s) = None"
      "state (filters s) = all_option" "township (filters s) = all_option"
      "group (filters s) = all_option"
    using that by (simp add: applyFilters_def assms filter_callback_all filter_id_conv)
  ultimately show ?thesis
    by auto
qed

theorem applyFilters_exact_witness:
  "mergedData example_filtered = Some (map (merge_feature example_sheet) (features example_geo)) \<and>
   applyFilters (\<lambda>t. NaN) example_filtered =
     Inr [merge_feature example_sheet (features example_geo ! 0)]"
proof -
  let ?md = "map (merge_feature example_sheet) (features example_geo)"
  have h: "mergedData example_filtered = Some ?md"
    by (simp add: example_filtered_def example_loaded_fields)
  have f: "filter (satisfies (\<lambda>t. NaN) (filters example_filtered)) ?md =
             [merge_feature example_sheet (features example_geo ! 0)]"
    unfolding example_merged
    by (simp add: example_filtered_def example_loaded_fields constructor_def satisfies_def
        date_in_range_def field_is_def all_option_def)
      (simp add: example_geo_def example_merged [unfolded example_geo_def, simplified])
  from applyFilters_exact [OF h, of "\<lambda>t. NaN", THEN conjunct1]
  show ?thesis
    using h f by simp
qed

section \<open>The lightness of a polygon\<close>

text \<open>
  Claim C4. For a feature with count \<open>v\<close> styled against a maximum \<open>m > 0\<close>,
  the lightness \<^verbatim>\<open>getStyle\<close> computes is \<open>100 - v / m * 50\<close>; against the
  maximum 100, the counts 50, 100 and 0 give 75, 50 and 100.
\<close>

theorem getStyle_lightness:
  assumes "totalTime feature = Fin v" and "0 < m"
  shows "lightness (getStyle feature (Fin m)) = Fin (100 - v / m * 50) \<and>
         lightness (getStyle (feature\<lparr>totalTime := Fin 50\<rparr>) (Fin 100)) = Fin 75 \<and>
         lightness (getStyle (feature\<lparr>totalTime := Fin 100\<rparr>) (Fin 100)) = Fin 50 \<and>
         lightness (getStyle (feature\<lparr>totalTime := Fin 0\<rparr>) (Fin 100)) = Fin 100"
  using assms by (simp add: getStyle_def js_sub_def)

theorem getStyle_lightness_witness:
  "totalTime (plain_feature (Fin 50)) = Fin 50 \<and> (0::rat) < 100 \<and>
   lightness (getStyle (plain_feature (Fin 50)) (Fin 100)) = Fin 75"
  using getStyle_lightness [of "plain_feature (Fin 50)" 50 100]
  by (simp add: plain_feature_def)

section \<open>updateChoropleth\<close>

lemmas render_defs =
  updateDashboard_def updateChoropleth_def removeCurrentLayer_def applyFilters_def
  geoJson_def getStyle_def addPopup_def updateSummaryCards_def updateHeadlines_def

lemma removeCurrentLayer_ok:
  assumes "map_obj s = Some ls"
  shows "\<exists>ls'. removeCurrentLayer s = Inr (s\<lparr>map_obj := Some ls'\<rparr>)"
  using assms by (cases "currentLayer s") (auto simp: removeCurrentLayer_def intro: exI[of _ ls])

lemma applyFilters_map_obj_update [simp]:
  "applyFilters dp (s\<lparr>map_obj := m\<rparr>) = applyFilters dp s"
  by (simp add: applyFilters_def split: option.splits)

text \<open>
  On a dashboard whose map exists and whose merged data is set,
  \<^verbatim>\<open>updateChoropleth\<close> does not throw: it installs the layer of the filtered
  features, styled against their maximum, and writes the counters and the
  headline list.
\<close>

lemma updateChoropleth_renders:
  assumes "map_obj s = Some ls" and "applyFilters dp s = Inr fd"
  shows "\<exists>s'. updateChoropleth dp s = Inr s' \<and>
           map_option polygons (currentLayer s') =
             Some (polygons (geoJson 0 fd (Math_max (map totalTime fd)))) \<and>
           cards (document s') = Some (sum_totals fd) \<and>
           headlines (document s') =
             Some (map (\<lambda>feature. (js_or (get (props feature) ''Type1'') (JStr []),
                                    js_or (get (props feature) ''Headline'') (JStr []))) fd)"
proof -
  from removeCurrentLayer_ok [OF assms(1)] obtain ls' where
    r: "removeCurrentLayer s = Inr (s\<lparr>map_obj := Some ls'\<rparr>)" by blast
  show ?thesis
    by (simp add: updateChoropleth_def r assms(2) Let_def updateHeadlines_def
        updateSummaryCards_def geoJson_def)
qed

text \<open>What \<^verbatim>\<open>updateChoropleth\<close> leaves as it is, whether it throws or not.\<close>

lemma updateChoropleth_keeps:
  "select_options (document (state_of (updateChoropleth dp s))) = select_options (document s)"
  "change_listeners (document (state_of (updateChoropleth dp s))) = change_listeners (document s)"
  "date_picker (document (state_of (updateChoropleth dp s))) = date_picker (document s)"
  "filters (state_of (updateChoropleth dp s)) = filters s"
  "sheetData (state_of (updateChoropleth dp s)) = sheetData s"
  "geoData (state_of (updateChoropleth dp s)) = geoData s"
  "mergedData (state_of (updateChoropleth dp s)) = mergedData s"
  "console (state_of (updateChoropleth dp s)) = console s"
  by (simp_all add: render_defs state_of_def Let_def split: option.splits sum.splits)

lemma updateChoropleth_keeps_map:
  "map_obj s \<noteq> None \<Longrightarrow> map_obj (state_of (updateChoropleth dp s)) \<noteq> None"
  by (auto simp: render_defs state_of_def Let_def split: option.splits sum.splits)

lemmas select_defs =
  initFilters_def initSelectFilter_def initGroupFilter_def updateGroupFilter_def
  updateTownshipFilter_def appendOptions_def clearOptions_def addEventListener_def

lemma initFilters_keeps:
  "map_obj (initFilters s) = map_obj s"
  "mergedData (initFilters s) = mergedData s"
  "currentLayer (initFilters s) = currentLayer s"
  "filters (initFilters s) = (filters s)\<lparr> group := all_option \<rparr>"
  "console (initFilters s) = console s"
  "sheetData (initFilters s) = sheetData s"
  "geoData (initFilters s) = geoData s"
  by (simp_all add: select_defs Let_def)

lemma initDatePicker_keeps:
  "map_obj (initDatePicker s) = map_obj s"
  "mergedData (initDatePicker s) = mergedData s"
  "currentLayer (initDatePicker s) = currentLayer s"
  "filters (initDatePicker s) = filters s"
  "console (initDatePicker s) = console s"
  "sheetData (initDatePicker s) = sheetData s"
  "geoData (initDatePicker s) = geoData s"
  by (simp_all add: initDatePicker_def)

text \<open>
  \<^verbatim>\<open>init\<close> creates the map before anything can call \<^verbatim>\<open>updateChoropleth\<close>,
  and the map stays.
\<close>

lemma init_creates_map:
  "map_obj (state_of (init dp sf sheetResponse geoResponse s)) \<noteq> None"
  by (simp add: init_def updateDashboard_def updateChoropleth_keeps_map initDatePicker_keeps
      initFilters_keeps initMap_def)

lemma zero_loaded_fields:
  "map_obj zero_loaded = Some []"
  "mergedData zero_loaded = Some (map (merge_feature []) (features example_geo))"
  "filters zero_loaded = filters (constructor blank_page :: unit dashboard)"
  by (simp_all add: zero_loaded_def startup_defs)

lemma filtered_out_fields:
  "map_obj filtered_out = Some []"
  "mergedData filtered_out = Some (map (merge_feature []) (features example_geo))"
  "state (filters filtered_out) = ''Nowhere''"
  by (simp_all add: filtered_out_def zero_loaded_fields)

text \<open>
  Claim C8. When the filtered set is empty, on a dashboard whose map exists,
  \<^verbatim>\<open>updateChoropleth\<close> does not throw: the maximum is \<^verbatim>\<open>-Infinity\<close>, the
  layer has no polygon, so that \<^verbatim>\<open>getStyle\<close> is not called, the four counters
  are 0 and the headline list is empty.
\<close>

theorem empty_set_renders:
  assumes "map_obj s = Some ls" and "applyFilters dp s = Inr []"
  shows "Math_max (map totalTime ([] :: 'a merged list)) = NInf \<and>
         (case updateChoropleth dp s of
            Inl e \<Rightarrow> False
          | Inr s' \<Rightarrow>
              map_option polygons (currentLayer s') = Some [] \<and>
              cards (document s') = Some zero_totals \<and>
              headlines (document s') = Some [])"
  using updateChoropleth_renders [OF assms]
  by (auto simp: Math_max_Nil geoJson_def sum_totals_def zero_totals_def)

theorem empty_set_renders_witness:
  "map_obj filtered_out = Some [] \<and>
   applyFilters (\<lambda>t. NaN) filtered_out = Inr [] \<and>
   (case updateChoropleth (\<lambda>t. NaN) filtered_out of
      Inl e \<Rightarrow> False
    | Inr s' \<Rightarrow>
        map_option polygons (currentLayer s') = Some [] \<and>
        cards (document s') = Some zero_totals \<and>
        headlines (document s') = Some [])"
proof -
  have h1: "map_obj filtered_out = Some []"
    by (rule filtered_out_fields)
  have h2: "applyFilters (\<lambda>t. NaN) filtered_out = Inr []"
    by (simp add: applyFilters_def filtered_out_fields filter_callback_def all_option_def
        example_geo_def merge_feature_def get_def strict_eq_def)
  from empty_set_renders [OF h1 h2] show ?thesis
    using h1 h2 by simp
qed

text \<open>
  Claim C10. When the filtered set is not empty and every count in it is 0,
  the maximum is 0, the intensity \<open>0 / 0\<close> is \<^verbatim>\<open>NaN\<close>, and the lightness of
  every polygon of the layer is \<^verbatim>\<open>NaN\<close>: the division is not guarded.
\<close>

theorem zero_maximum_gives_NaN:
  assumes "map_obj s = Some ls" and "applyFilters dp s = Inr fd" and "fd \<noteq> []"
    and "\<forall>f\<in>set fd. totalTime f = Fin 0"
  shows "Math_max (map totalTime fd) = Fin 0 \<and> js_div (Fin 0) (Fin 0) = NaN \<and>
         (case updateChoropleth dp s of
            Inl e \<Rightarrow> False
          | Inr s' \<Rightarrow>
              (case currentLayer s' of
                 None \<Rightarrow> False
               | Some l \<Rightarrow> map target (polygons l) = fd \<and>
                           (\<forall>p\<in>set (polygons l). lightness (polygon_style p) = NaN)))"
proof -
  have m: "Math_max (map totalTime fd) = Fin 0"
    using assms(3,4) by (intro Math_max_zeros) auto
  from updateChoropleth_renders [OF assms(1,2)] obtain s' where
    u: "updateChoropleth dp s = Inr s'" and
    l: "map_option polygons (currentLayer s') =
          Some (polygons (geoJson 0 fd (Math_max (map totalTime fd))))"
    by blast
  from l obtain l' where c: "currentLayer s' = Some l'"
    and p: "polygons l' = polygons (geoJson 0 fd (Fin 0))"
    by (auto simp: m)
  have "map target (polygons l') = fd"
    by (simp add: p geoJson_def comp_def)
  moreover have "\<forall>p\<in>set (polygons l'). lightness (polygon_style p) = NaN"
    using assms(4) by (auto simp: p geoJson_def getStyle_def js_sub_def)
  ultimately show ?thesis
    by (simp add: m u c)
qed

theorem zero_maximum_gives_NaN_witness:
  "map_obj zero_loaded = Some [] \<and>
   applyFilters (\<lambda>t. NaN) zero_loaded = Inr (map (merge_feature []) (features example_geo)) \<and>
   map (merge_feature []) (features example_geo) \<noteq> [] \<and>
   map totalTime (map (merge_feature []) (features example_geo)) = [Fin 0, Fin 0] \<and>
   Math_max (map totalTime (map (merge_feature []) (features example_geo))) = Fin 0 \<and>
   (case updateChoropleth (\<lambda>t. NaN) zero_loaded of
      Inl e \<Rightarrow> False
    | Inr s' \<Rightarrow>
        (case currentLayer s' of
           None \<Rightarrow> False
         | Some l \<Rightarrow> \<forall>p\<in>set (polygons l). lightness (polygon_style p) = NaN))"
proof -
  let ?fd = "map (merge_feature []) (features example_geo) :: unit merged list"
  have h1: "map_obj zero_loaded = Some []"
    by (rule zero_loaded_fields)
  have h2: "applyFilters (\<lambda>t. NaN) zero_loaded = Inr ?fd"
    by (simp add: applyFilters_def zero_loaded_fields filter_callback_unset filter_id_conv)
  have h3: "?fd \<noteq> []"
    by (simp add: example_geo_def)
  have h4: "\<forall>f\<in>set ?fd. totalTime f = Fin 0"
    by (simp add: example_geo_def merge_feature_def)
  have h5: "map totalTime ?fd = [Fin 0, Fin 0]"
    by (simp add: example_geo_def merge_feature_def)
  from zero_maximum_gives_NaN [OF h1 h2 h3 h4] show ?thesis
    using h1 h2 h3 h5 by (auto split: sum.splits option.splits)
qed

section \<open>The end-to-end example\<close>

lemma init_loaded:
  "init dp sf (Inr sheet) (Inr geo) (constructor pg) =
     updateChoropleth dp (initDatePicker (initFilters (initMap
       ((constructor pg)\<lparr> sheetData := sheet, geoData := Some geo,
           mergedData := Some (map (merge_feature sheet) (features geo)) \<rparr>))))"
  by (simp add: init_def updateDashboard_def startup_defs)

lemma example_totals:
  "map totalTime (map (merge_feature example_sheet) (features example_geo)) = [Fin 5, Fin 0]"
  "Math_max (map totalTime (map (merge_feature example_sheet) (features example_geo))) = Fin 5"
proof -
  show t: "map totalTime (map (merge_feature example_sheet) (features example_geo)) =
             [Fin 5, Fin 0]"
    unfolding example_merged by simp
  show "Math_max (map totalTime (map (merge_feature example_sheet) (features example_geo))) =
          Fin 5"
    unfolding t by (simp add: Math_max_def max2_def)
qed

lemma example_init_layer:
  "case init dp True (Inr example_sheet) (Inr example_geo) (constructor blank_page) of
     Inl e \<Rightarrow> False
   | Inr s' \<Rightarrow>
       mergedData s' = mergedData example_loaded \<and>
       map_option (\<lambda>l. map (\<lambda>p. (get (props (target p)) ''TS_MMR'', lightness (polygon_style p)))
                           (polygons l)) (currentLayer s') =
         Some [(JStr ''town1'', Fin 50), (JStr ''town2'', Fin 100)]"
proof -
  let ?md = "map (merge_feature example_sheet) (features example_geo)"
  let ?s = "initDatePicker (initFilters (initMap
       ((constructor blank_page)\<lparr> sheetData := example_sheet, geoData := Some example_geo,
           mergedData := Some ?md \<rparr>))) :: unit dashboard"
  have a: "applyFilters dp ?s = Inr ?md"
    by (simp add: applyFilters_def initDatePicker_keeps initFilters_keeps initMap_def
        constructor_def filter_callback_all filter_id_conv)
  have b: "map_obj ?s = Some []"
    by (simp add: initDatePicker_keeps initFilters_keeps initMap_def)
  have c: "mergedData ?s = Some ?md"
    by (simp add: initDatePicker_keeps initFilters_keeps initMap_def)
  from updateChoropleth_renders [OF b a] obtain s' where
    u: "updateChoropleth dp ?s = Inr s'" and
    l: "map_option polygons (currentLayer s') =
          Some (polygons (geoJson 0 ?md (Math_max (map totalTime ?md))))"
    by blast
  have "mergedData (state_of (updateChoropleth dp ?s)) = mergedData ?s"
    by (rule updateChoropleth_keeps)
  then have k: "mergedData s' = Some ?md"
    by (simp add: u c state_of_def)
  from l have "map_option polygons (currentLayer s') = Some (polygons (geoJson 0 ?md (Fin 5)))"
    by (simp only: example_totals(2))
  then obtain l' where cl: "currentLayer s' = Some l'"
    and p: "polygons l' = polygons (geoJson 0 ?md (Fin 5))"
    by auto
  have "map (\<lambda>p. (get (props (target p)) ''TS_MMR'', lightness (polygon_style p))) (polygons l') =
          [(JStr ''town1'', Fin 50), (JStr ''town2'', Fin 100)]"
    by (simp add: p geoJson_def example_merged getStyle_def js_sub_def get_def)
  then show ?thesis
    by (simp add: init_loaded u cl k example_loaded_fields)
qed

text \<open>
  Claim C6, amended. In the example with the filters unset, the merged counts
  are 5 and 0 and their maximum is 5; \<^verbatim>\<open>init\<close> does not throw, and the
  lightness of the layer it installs is 50 for \<^verbatim>\<open>town1\<close>, whose count is the
  maximum, and 100 for \<^verbatim>\<open>town2\<close>.
\<close>

theorem end_to_end_example:
  "map_option (map totalTime) (mergedData example_loaded) = Some [Fin 5, Fin 0] \<and>
   map_option (\<lambda>md. Math_max (map totalTime md)) (mergedData example_loaded) = Some (Fin 5) \<and>
   (case init dp True (Inr example_sheet) (Inr example_geo) (constructor blank_page) of
      Inl e \<Rightarrow> False
    | Inr s' \<Rightarrow>
        mergedData s' = mergedData example_loaded \<and>
        map_option (\<lambda>l. map (\<lambda>p. (get (props (target p)) ''TS_MMR'', lightness (polygon_style p)))
                            (polygons l)) (currentLayer s') =
          Some [(JStr ''town1'', Fin 50), (JStr ''town2'', Fin 100)])"
  using example_init_layer [of dp]
  by (simp add: example_loaded_fields example_totals(1) Math_max_def max2_def del: map_map)

theorem end_to_end_example_witness:
  "map_option (map totalTime) (mergedData example_loaded) = Some [Fin 5, Fin 0] \<and>
   (case init (\<lambda>t. NaN) True (Inr example_sheet) (Inr example_geo) (constructor blank_page) of
      Inl e \<Rightarrow> False
    | Inr s' \<Rightarrow> mergedData s' = mergedData example_loaded)"
  using end_to_end_example [of "\<lambda>t. NaN"]
  by (auto split: sum.splits)

text \<open>
  Claim C6 as it is written gives \<^verbatim>\<open>town1\<close> the lightness 75: it does not
  hold.
\<close>

theorem end_to_end_example_counterexample:
  "\<not> (case init (\<lambda>t. NaN) True (Inr example_sheet) (Inr example_geo) (constructor blank_page) of
        Inl e \<Rightarrow> False
      | Inr s' \<Rightarrow>
          map_option (\<lambda>l. map (\<lambda>p. (get (props (target p)) ''TS_MMR'', lightness (polygon_style p)))
                              (polygons l)) (currentLayer s') =
            Some [(JStr ''town1'', Fin 75), (JStr ''town2'', Fin 100)])"
  using example_init_layer [of "\<lambda>t. NaN"]
  by (auto split: sum.splits)

section \<open>The summary counters\<close>

lemma count_field_missing: "props f key = None \<Longrightarrow> count_field f key = Fin 0"
  by (simp add: count_field_def get_def js_or_def NumberToInt_def)

lemma count_field_empty: "props f key = Some (JStr []) \<Longrightarrow> count_field f key = Fin 0"
  by (simp add: count_field_def get_def js_or_def NumberToInt_def)

lemma foldl_reducer:
  "sacrificeSac (foldl reducer acc data) =
     foldl js_add (sacrificeSac acc) (map (\<lambda>f. count_field f key_sacrificeSac) data) \<and>
   revolutionMartyrs (foldl reducer acc data) =
     foldl js_add (revolutionMartyrs acc) (map (\<lambda>f. count_field f key_revolutionMartyrs) data) \<and>
   capturedBases (foldl reducer acc data) =
     foldl js_add (capturedBases acc)
       (concat (map (\<lambda>f. [count_field f key_basesRevolution, count_field f key_basesSac]) data)) \<and>
   prisonersWar (foldl reducer acc data) =
     foldl js_add (prisonersWar acc) (map (\<lambda>f. count_field f key_prisonersWar) data)"
  by (induction data arbitrary: acc) (simp_all add: reducer_def)

text \<open>Each counter is the sum, from 0, of \<^verbatim>\<open>parseInt(field || 0)\<close> over the data.\<close>

lemma sum_totals_sums:
  "sacrificeSac (sum_totals data) =
     foldl js_add (Fin 0) (map (\<lambda>f. count_field f key_sacrificeSac) data) \<and>
   revolutionMartyrs (sum_totals data) =
     foldl js_add (Fin 0) (map (\<lambda>f. count_field f key_revolutionMartyrs) data) \<and>
   capturedBases (sum_totals data) =
     foldl js_add (Fin 0)
       (concat (map (\<lambda>f. [count_field f key_basesRevolution, count_field f key_basesSac]) data)) \<and>
   prisonersWar (sum_totals data) =
     foldl js_add (Fin 0) (map (\<lambda>f. count_field f key_prisonersWar) data)"
  using foldl_reducer [of "\<lparr> sacrificeSac = Fin 0, revolutionMartyrs = Fin 0,
    capturedBases = Fin 0, prisonersWar = Fin 0 \<rparr>" data]
  by (simp add: sum_totals_def)

lemma count_field_decimal:
  assumes "props f key = Some (JStr t)" and "t \<noteq> []" and "\<forall>c\<in>set t. is_digit c"
  shows "count_field f key = Fin (of_nat (decimal_value t))"
  using assms by (simp add: count_field_def get_def js_or_def StringToInt_decimal)

text \<open>
  Claim C5 fails on a count that is text but not a number. The guard
  \<^verbatim>\<open>|| 0\<close> stands inside \<^verbatim>\<open>parseInt(...)\<close>: it replaces a missing or empty
  field by 0, and leaves \<^verbatim>\<open>n/a\<close> to \<^verbatim>\<open>parseInt\<close>, which answers
  \<^verbatim>\<open>NaN\<close>; the sum, and the counter, is then \<^verbatim>\<open>NaN\<close> and not 0.
\<close>

theorem summary_unparseable_gives_NaN:
  "count_field unparseable_feature key_sacrificeSac = NaN \<and>
   sum_totals [unparseable_feature] =
     \<lparr> sacrificeSac = NaN, revolutionMartyrs = Fin 0, capturedBases = Fin 0,
       prisonersWar = Fin 0 \<rparr> \<and>
   cards (document (updateSummaryCards [unparseable_feature] s)) =
     Some \<lparr> sacrificeSac = NaN, revolutionMartyrs = Fin 0, capturedBases = Fin 0,
            prisonersWar = Fin 0 \<rparr>"
proof -
  have a: "count_field unparseable_feature key_sacrificeSac = NaN"
    by (simp add: count_field_def unparseable_feature_def get_def js_or_def StringToInt_na)
  have b: "count_field unparseable_feature key_revolutionMartyrs = Fin 0"
    "count_field unparseable_feature key_basesRevolution = Fin 0"
    "count_field unparseable_feature key_basesSac = Fin 0"
    "count_field unparseable_feature key_prisonersWar = Fin 0"
    by (rule count_field_missing;
        simp add: unparseable_feature_def key_sacrificeSac_def key_revolutionMartyrs_def
          key_basesRevolution_def key_basesSac_def key_prisonersWar_def)+
  show ?thesis
    by (simp add: sum_totals_def reducer_def a b updateSummaryCards_def)
qed

section \<open>The township dropdown\<close>

lemma truthy_cells_text:
  "map cell_text (filter cell_truthy (map (\<lambda>d. row_cell d key) rows)) =
     concat (map (\<lambda>d. case d key of
                         Some (Text t) \<Rightarrow> if t = [] then [] else [t]
                       | _ \<Rightarrow> []) rows)"
proof (induction rows)
  case Nil
  show ?case by simp
next
  case (Cons d rows)
  then show ?case
    by (auto simp: row_cell_def cell_truthy_def split: option.splits cell.splits)
qed

lemma cell_text_eq:
  "cell_truthy a \<Longrightarrow> cell_truthy b \<Longrightarrow> cell_text a = cell_text b \<Longrightarrow> a = b"
  by (cases a; cases b; simp add: cell_truthy_def)

lemma cell_text_inj: "inj_on cell_text (set (filter cell_truthy cs))"
  by (auto simp: inj_on_def intro: cell_text_eq)

lemma updateTownshipFilter_options:
  "select_options (document (updateTownshipFilter s)) ''township-filter'' =
     all_option # first_occurrences (township_values (state (filters s)) (sheetData s))"
proof -
  let ?rows = "filter (\<lambda>d. state (filters s) = all_option \<or>
                            strict_eq (row_get d ''ST_MMR'') (JStr (state (filters s))))
                      (sheetData s)"
  let ?cells = "filter cell_truthy (map (\<lambda>d. row_cell d ''TS_MMR_DASH'') ?rows)"
  have "map cell_text (Set_values ?cells) = first_occurrences (map cell_text ?cells)"
    by (simp only: Set_values_first_occurrences first_occurrences_map [OF cell_text_inj])
  also have "map cell_text ?cells = township_values (state (filters s)) (sheetData s)"
    by (simp only: truthy_cells_text township_values_def row_get_Text)
  finally show ?thesis
    by (simp add: updateTownshipFilter_def appendOptions_def clearOptions_def Let_def)
qed

lemma updateGroupFilter_keeps:
  "select_options (document (updateGroupFilter s)) ''township-filter'' =
     select_options (document s) ''township-filter''"
  "township (filters (updateGroupFilter s)) = township (filters s)"
  "state (filters (updateGroupFilter s)) = state (filters s)"
  by (simp_all add: updateGroupFilter_def appendOptions_def clearOptions_def Let_def)

lemma region_values: "township_values ''Region A'' region_sheet = [''T1'', ''T2'', ''T1'']"
  by (simp add: township_values_def region_sheet_def all_option_def)

text \<open>
  Claim C7. After the state filter is changed to \<open>v\<close>, the options of the
  township dropdown are the sentinel followed by the distinct non-empty
  \<^verbatim>\<open>TS_MMR_DASH\<close> values of the rows whose \<^verbatim>\<open>ST_MMR\<close> is \<open>v\<close> (of all rows
  when \<open>v\<close> is the sentinel), in the order of their first occurrence, and the
  township filter is the sentinel again. On the fixture, choosing
  \<^verbatim>\<open>Region A\<close> leaves the townships \<^verbatim>\<open>T1\<close> and \<^verbatim>\<open>T2\<close>.
\<close>

theorem township_options_after_state_change:
  "select_options (document (state_of (on_state_change dp v s))) ''township-filter'' =
     all_option # first_occurrences (township_values v (sheetData s)) \<and>
   distinct (first_occurrences (township_values v (sheetData s))) \<and>
   set (first_occurrences (township_values v (sheetData s))) =
     set (township_values v (sheetData s)) \<and>
   township (filters (state_of (on_state_change dp v s))) = all_option \<and>
   select_options
     (document (state_of (on_state_change dp ''Region A'' (s\<lparr> sheetData := region_sheet \<rparr>))))
     ''township-filter'' = [all_option, ''T1'', ''T2'']"
proof -
  have a: "select_options (document (state_of (on_state_change dp v s))) ''township-filter'' =
     all_option # first_occurrences (township_values v (sheetData s))"
    for v and s :: "'a dashboard"
    by (simp add: on_state_change_def updateDashboard_def updateChoropleth_keeps
        updateGroupFilter_keeps updateTownshipFilter_options)
  have b: "township (filters (state_of (on_state_change dp v s))) = all_option"
    by (simp add: on_state_change_def updateDashboard_def updateChoropleth_keeps
        updateGroupFilter_keeps updateTownshipFilter_def Let_def)
  show ?thesis
    by (simp add: a b region_values distinct_first_occurrences set_first_occurrences)
qed

theorem township_options_after_state_change_witness:
  "select_options
     (document (state_of (on_state_change (\<lambda>t. NaN) ''Region B''
        ((constructor blank_page :: unit dashboard)\<lparr> sheetData := region_sheet \<rparr>))))
     ''township-filter'' = [all_option, ''T3'', ''T4'']"
  using township_options_after_state_change
    [of "\<lambda>t. NaN" "''Region B''"
        "(constructor blank_page :: unit dashboard)\<lparr> sheetData := region_sheet \<rparr>"]
  by (simp add: township_values_def region_sheet_def all_option_def)

section \<open>A failed fetch\<close>

lemma Promise_all_rejected:
  "(\<exists>e. Promise_all sf a b = Inl e) \<longleftrightarrow> isl a \<or> isl b"
  by (cases a; cases b) (simp_all add: Promise_all_def)

lemma loadData_rejected:
  assumes "Promise_all sf sheetResponse geoResponse = Inl e"
  shows "loadData sf sheetResponse geoResponse s = s\<lparr> console := console s @ [e] \<rparr>"
  by (simp add: loadData_def assms console_error_def)

text \<open>
  After a failed fetch \<^verbatim>\<open>init\<close> goes on to \<^verbatim>\<open>initMap\<close>,
  \<^verbatim>\<open>initFilters\<close> and \<^verbatim>\<open>initDatePicker\<close>, and ends in
  \<^verbatim>\<open>updateDashboard\<close> with a TypeError that nothing catches:
  \<^verbatim>\<open>this.mergedData\<close> is undefined.
\<close>

lemma init_rejected:
  assumes "Promise_all sf sheetResponse geoResponse = Inl e"
  shows "init dp sf sheetResponse geoResponse (constructor pg) =
           Inl (TypeError,
                initDatePicker (initFilters (initMap ((constructor pg)\<lparr> console := [e] \<rparr>))))"
  by (simp add: init_def loadData_rejected [OF assms] updateDashboard_def updateChoropleth_def
      removeCurrentLayer_def applyFilters_def initDatePicker_keeps initFilters_keeps initMap_def
      constructor_def)

lemma initFilters_no_rows:
  assumes "sheetData s = []"
  shows "document (initFilters s) =
     (document s)\<lparr> select_options := (select_options (document s))
                      (''state-filter'' := select_options (document s) ''state-filter'' @ [all_option],
                       ''township-filter'' :=
                          select_options (document s) ''township-filter'' @ [all_option],
                       ''group-filter'' := [all_option]),
                    change_listeners := insert ''group-filter'' (insert ''township-filter''
                       (insert ''state-filter'' (change_listeners (document s)))) \<rparr>"
  by (simp add: select_defs assms Set_values_def Let_def)

text \<open>
  The state a failed fetch leaves behind, on any page: the rejection reason is
  the only entry of the console and no data is stored, yet the map is created,
  each of the three dropdowns has the sentinel as its only new option and its
  listener, and the date picker is bound.
\<close>

lemma init_rejected_state:
  assumes "Promise_all sf sheetResponse geoResponse = Inl e"
  shows "console (state_of (init dp sf sheetResponse geoResponse (constructor pg))) = [e] \<and>
         sheetData (state_of (init dp sf sheetResponse geoResponse (constructor pg))) = [] \<and>
         geoData (state_of (init dp sf sheetResponse geoResponse (constructor pg))) = None \<and>
         mergedData (state_of (init dp sf sheetResponse geoResponse (constructor pg))) = None \<and>
         map_obj (state_of (init dp sf sheetResponse geoResponse (constructor pg))) = Some [] \<and>
         currentLayer (state_of (init dp sf sheetResponse geoResponse (constructor pg))) = None \<and>
         document (state_of (init dp sf sheetResponse geoResponse (constructor pg))) =
           pg\<lparr> select_options := (select_options pg)
                  (''state-filter'' := select_options pg ''state-filter'' @ [all_option],
                   ''township-filter'' := select_options pg ''township-filter'' @ [all_option],
                   ''group-filter'' := [all_option]),
               change_listeners := insert ''group-filter'' (insert ''township-filter''
                  (insert ''state-filter'' (change_listeners pg))),
               date_picker := True \<rparr>"
proof -
  let ?s = "initMap ((constructor pg)\<lparr> console := [e] \<rparr>) :: 'a dashboard"
  have r: "state_of (init dp sf sheetResponse geoResponse (constructor pg)) =
             initDatePicker (initFilters ?s)"
    by (simp add: init_rejected [OF assms] state_of_def)
  have d: "document (initFilters ?s) =
     pg\<lparr> select_options := (select_options pg)
                  (''state-filter'' := select_options pg ''state-filter'' @ [all_option],
                   ''township-filter'' := select_options pg ''township-filter'' @ [all_option],
                   ''group-filter'' := [all_option]),
               change_listeners := insert ''group-filter'' (insert ''township-filter''
                  (insert ''state-filter'' (change_listeners pg))) \<rparr>"
    by (subst initFilters_no_rows) (simp_all add: initMap_def constructor_def)
  have doc: "document (initDatePicker (initFilters ?s)) =
     pg\<lparr> select_options := (select_options pg)
                  (''state-filter'' := select_options pg ''state-filter'' @ [all_option],
                   ''township-filter'' := select_options pg ''township-filter'' @ [all_option],
                   ''group-filter'' := [all_option]),
               change_listeners := insert ''group-filter'' (insert ''township-filter''
                  (insert ''state-filter'' (change_listeners pg))),
               date_picker := True \<rparr>"
    by (simp add: initDatePicker_def d)
  have rest: "console (initDatePicker (initFilters ?s)) = [e]"
    "sheetData (initDatePicker (initFilters ?s)) = []"
    "geoData (initDatePicker (initFilters ?s)) = None"
    "mergedData (initDatePicker (initFilters ?s)) = None"
    "map_obj (initDatePicker (initFilters ?s)) = Some []"
    "currentLayer (initDatePicker (initFilters ?s)) = None"
    by (simp_all add: initDatePicker_keeps initFilters_keeps initMap_def constructor_def)
  show ?thesis
    unfolding r by (intro conjI rest doc)
qed

text \<open>
  Claim C9 fails when a fetch fails. The \<^verbatim>\<open>catch\<close> block of
  \<^verbatim>\<open>loadData\<close> logs the reason and returns, and \<^verbatim>\<open>init\<close> has no check
  after it: initialization is not aborted. On a blank page, with the sheet out
  of reach, \<^verbatim>\<open>init\<close> creates the map, fills the dropdowns, binds the date
  picker and then ends in a TypeError that nothing catches, thrown by
  \<^verbatim>\<open>updateDashboard\<close> on the undefined \<^verbatim>\<open>this.mergedData\<close>; the
  dashboard is not as the constructor left it.
\<close>

theorem failed_fetch_init_throws:
  "(case failed_start of
      Inr s \<Rightarrow> False
    | Inl (e, s) \<Rightarrow>
        e = TypeError \<and> console s = [Rejected ''network''] \<and>
        sheetData s = [] \<and> geoData s = None \<and> mergedData s = None \<and>
        map_obj s = Some [] \<and> currentLayer s = None \<and>
        select_options (document s) ''state-filter'' = [all_option] \<and>
        select_options (document s) ''township-filter'' = [all_option] \<and>
        select_options (document s) ''group-filter'' = [all_option] \<and>
        change_listeners (document s) = {''state-filter'', ''township-filter'', ''group-filter''} \<and>
        date_picker (document s) \<and>
        cards (document s) = None \<and> headlines (document s) = None) \<and>
   state_of failed_start \<noteq> constructor blank_page\<lparr> console := [Rejected ''network''] \<rparr>"
proof -
  have h: "Promise_all True (Inl (Rejected ''network'')) (Inr example_geo) =
             Inl (Rejected ''network'')"
    by (simp add: Promise_all_def)
  note r = init_rejected [OF h, of "\<lambda>t. NaN" blank_page]
  note st = init_rejected_state [OF h, of "\<lambda>t. NaN" blank_page, unfolded r state_of_def,
    simplified]
  have m: "map_obj (constructor blank_page\<lparr> console := [Rejected ''network''] \<rparr> :: unit dashboard)
             = None"
    by (simp add: constructor_def)
  have "state_of failed_start \<noteq> constructor blank_page\<lparr> console := [Rejected ''network''] \<rparr>"
  proof
    assume "state_of failed_start = constructor blank_page\<lparr> console := [Rejected ''network''] \<rparr>"
    then have "map_obj (state_of failed_start) = None"
      by (simp only: m)
    then show False
      by (simp add: failed_start_def r state_of_def st)
  qed
  then show ?thesis
    by (simp add: failed_start_def r st) (auto simp: blank_page_def)
qed

end
